theory Spec2Isabelle
  imports Complex_Main
begin

section \<open>Values and exceptions\<close>

text \<open>
  The notebook handles decoded JSON throughout: the bodies of the responses, the records
  accumulated by the fetchers and the cells of the pandas tables. One datatype covers
  them. \<open>JNull\<close> stands for both \<open>None\<close> and \<open>NaN\<close> (pandas' \<open>isnull\<close> does not tell them
  apart); numbers are exact rationals, the rounding of float64 is not modelled. A Python
  dict is an association list read with \<open>map_of\<close>.
\<close>

datatype json =
    JNull
  | JBool bool
  | JNum rat
  | JStr string
  | JArr "json list"
  | JObj "(string \<times> json) list"

text \<open>The exceptions that leave the notebook's functions.\<close>

datatype py_exn =
    TypeError
  | AttributeError
  | NameError
  | KeyError
  | ValueError
  | JSONDecodeError
  | UnicodeEncodeError

section \<open>Constants of the notebook\<close>

definition COLOR_DICT :: "(string \<times> string) list" where
  "COLOR_DICT =
    [(''purple'', ''purple''),
     (''dark_blue'', ''darkblue''),
     (''yellow'', ''orange''),
     (''grey'', ''grey''),
     (''dark_purple'', ''purple''),
     (''blue'', ''blue''),
     (''dark_orange'', ''orange''),
     (''dark_yellow'', ''gold''),
     (''blue-gray'', ''dodgerblue''),
     (''green'', ''green'')]"

text \<open>
  \<open>lambda x: COLOR_DICT.get(x, 'white')\<close>, applied to the cells of a colour column.
  A dict lookup hashes its key: a list or a dict as key raises \<open>TypeError\<close>, every
  other value that is not a key of the dict yields the default.
\<close>

fun hashable :: "json \<Rightarrow> bool" where
  "hashable (JArr xs) = False"
| "hashable (JObj kvs) = False"
| "hashable v = True"

definition color_replace :: "json \<Rightarrow> py_exn + string" where
  "color_replace x =
    (case x of
       JStr s \<Rightarrow> Inr (case map_of COLOR_DICT s of Some c \<Rightarrow> c | None \<Rightarrow> ''white'')
     | JArr xs \<Rightarrow> Inl TypeError
     | JObj kvs \<Rightarrow> Inl TypeError
     | _ \<Rightarrow> Inr ''white'')"

text \<open>
  The whitelist and the renaming dictionary, entry by entry as in the notebook (the
  commented-out \<open>fields.project.key\<close> left out). Both list
  \<open>fields.status.statusCategory.colorName\<close> twice; in the dict literal the second entry
  replaces the first, with the same value. Two keys of the dictionary,
  \<open>fields.resolution\<close> and \<open>fields.resolution.name\<close>, have the same value.
\<close>

definition RELEVANT_FIELDS :: "string list" where
  "RELEVANT_FIELDS =
    [''fields.project.name'',
     ''fields.project.id'',
     ''id'',
     ''key'',
     ''fields.summary'',
     ''fields.description'',
     ''fields.issuetype.name'',
     ''fields.customfield_10011'',
     ''fields.customfield_10017'',
     ''fields.created'',
     ''fields.status.name'',
     ''fields.status.statusCategory.key'',
     ''fields.status.statusCategory.name'',
     ''fields.status.statusCategory.colorName'',
     ''fields.priority.name'',
     ''fields.customfield_10026'',
     ''fields.creator.displayName'',
     ''fields.assignee.displayName'',
     ''fields.reporter.displayName'',
     ''fields.issuetype.subtask'',
     ''fields.fixVersions'',
     ''fields.parent.id'',
     ''fields.parent.key'',
     ''fields.parent.fields.summary'',
     ''fields.parent.fields.status.name'',
     ''fields.parent.fields.status.statusCategory.key'',
     ''fields.parent.fields.status.statusCategory.name'',
     ''fields.parent.fields.status.statusCategory.colorName'',
     ''fields.parent.fields.priority.name'',
     ''fields.parent.fields.issuetype.name'',
     ''fields.parent.fields.issuetype.subtask'',
     ''fields.aggregatetimespent'',
     ''fields.resolution'',
     ''fields.resolutiondate'',
     ''fields.lastViewed'',
     ''fields.labels'',
     ''fields.aggregatetimeoriginalestimate'',
     ''fields.aggregatetimeestimate'',
     ''fields.timeestimate'',
     ''fields.updated'',
     ''fields.aggregateprogress.progress'',
     ''fields.aggregateprogress.total'',
     ''fields.aggregateprogress.percent'',
     ''fields.progress.percent'',
     ''fields.timeoriginalestimate'',
     ''fields.duedate'',
     ''fields.progress.progress'',
     ''fields.progress.total'',
     ''fields.resolution.name'',
     ''fields.statuscategorychangedate'',
     ''fields.status.statusCategory.colorName'']"

definition COLUMN_NAME_DICT :: "(string \<times> string) list" where
  "COLUMN_NAME_DICT =
    [(''fields.project.name'', ''project_name''),
     (''fields.project.id'', ''project_id''),
     (''id'', ''issue_id''),
     (''key'', ''issue_key''),
     (''fields.summary'', ''summary''),
     (''fields.description'', ''description''),
     (''fields.issuetype.name'', ''issuetype''),
     (''fields.customfield_10011'', ''epic_name''),
     (''fields.customfield_10017'', ''epic_color''),
     (''fields.created'', ''created''),
     (''fields.status.name'', ''status''),
     (''fields.status.statusCategory.key'', ''status_cat_key''),
     (''fields.status.statusCategory.name'', ''status_cat_name''),
     (''fields.status.statusCategory.colorName'', ''status_cat_color''),
     (''fields.priority.name'', ''prio''),
     (''fields.customfield_10026'', ''storypoints''),
     (''fields.creator.displayName'', ''creator''),
     (''fields.assignee.displayName'', ''assignee''),
     (''fields.reporter.displayName'', ''reporter''),
     (''fields.issuetype.subtask'', ''is_subtask''),
     (''fields.fixVersions'', ''fix_versions''),
     (''fields.parent.id'', ''parent_id''),
     (''fields.parent.key'', ''parent_key''),
     (''fields.parent.fields.summary'', ''parent_summary''),
     (''fields.parent.fields.status.name'', ''parent_status''),
     (''fields.parent.fields.status.statusCategory.key'', ''parent_status_cat_key''),
     (''fields.parent.fields.status.statusCategory.name'', ''parent_status_cat''),
     (''fields.parent.fields.status.statusCategory.colorName'', ''parent_status_cat_color''),
     (''fields.parent.fields.priority.name'', ''parent_prio''),
     (''fields.parent.fields.issuetype.name'', ''parent_issuetype''),
     (''fields.parent.fields.issuetype.subtask'', ''parent_is_subtask''),
     (''fields.aggregatetimespent'', ''aggregatetimespent''),
     (''fields.resolution'', ''resolution''),
     (''fields.resolutiondate'', ''resolution_date''),
     (''fields.lastViewed'', ''last_viewed''),
     (''fields.labels'', ''labels''),
     (''fields.aggregatetimeoriginalestimate'', ''aggregatetimeoriginalestimate''),
     (''fields.aggregatetimeestimate'', ''aggregatetimeestimate''),
     (''fields.timeestimate'', ''timeestimate''),
     (''fields.updated'', ''updated''),
     (''fields.aggregateprogress.progress'', ''aggregateprogress''),
     (''fields.aggregateprogress.total'', ''aggregateprogress_total''),
     (''fields.aggregateprogress.percent'', ''aggregateprogress_percent''),
     (''fields.progress.percent'', ''progress_percent''),
     (''fields.timeoriginalestimate'', ''timeoriginalestimate''),
     (''fields.duedate'', ''duedate''),
     (''fields.progress.progress'', ''progress''),
     (''fields.progress.total'', ''progress_total''),
     (''fields.resolution.name'', ''resolution''),
     (''fields.statuscategorychangedate'', ''status_cat_changedate''),
     (''fields.status.statusCategory.colorName'', ''status_cat_color'')]"

section \<open>The authenticated request client\<close>

text \<open>
  The three configuration values are read once with \<open>os.environ.get\<close>, which yields
  \<open>None\<close> for a variable that is not set. A string is represented by its bytes: where
  the bytes are valid UTF-8 they are the encoding of the text; a byte of the environment
  that is not part of a valid UTF-8 sequence is a lone surrogate in Python's string, which
  the strict encoder of \<open>bytes(auth_string, "utf-8")\<close> refuses with
  \<open>UnicodeEncodeError\<close>. So the encoding is the identity on the strings that are valid
  UTF-8 and raises on the others.

  The HTTP library and Python's \<open>str\<close> are outside the repository. \<open>requests.get\<close> is a
  parameter: an arbitrary function from the request to what the call does, which is to
  raise or to return a response. Within one run of a fetcher no two requests are equal
  (the offset grows), so a function of the request also covers a server whose answers
  change over time. The text that an f-string gives an identifier, \<open>py_str\<close>, is a
  parameter as well.
\<close>

record params =
  startAt :: nat
  maxResults :: nat
  extra :: "(string \<times> string) list"

record request =
  url :: string
  query :: "params option"
  headers :: "(string \<times> string) list"

text \<open>
  A response carries its status and its text. The text is represented by what
  \<open>json.loads\<close> makes of it: \<open>None\<close> when it is not JSON (\<open>JSONDecodeError\<close>).
\<close>

record response =
  status_code :: nat
  body :: "json option"

datatype requests_error = HTTPError | ConnectionError | Timeout | OtherError

datatype http_result = Raised requests_error | Returned response

text \<open>What \<open>jira_auth_get_connect\<close> returns: the response, or the caught exception as a value.\<close>

datatype reply = Response response | ErrorValue requests_error

type_synonym exchange = "request \<times> http_result"

record env =
  server :: "string option"
  user :: "string option"
  apikey :: "string option"
  requests_get :: "request \<Rightarrow> http_result"
  py_str :: "json \<Rightarrow> string"

text \<open>
  Valid UTF-8 as Python's decoder accepts it: no overlong forms, no encoded surrogates,
  nothing beyond U+10FFFF.
\<close>

definition continuation :: "nat \<Rightarrow> bool" where
  "continuation b = (128 \<le> b \<and> b < 192)"

definition second_of_three :: "nat \<Rightarrow> nat \<Rightarrow> bool" where
  "second_of_three a b =
    (if a = 224 then 160 \<le> b \<and> b < 192
     else if a = 237 then 128 \<le> b \<and> b < 160
     else continuation b)"

definition second_of_four :: "nat \<Rightarrow> nat \<Rightarrow> bool" where
  "second_of_four a b =
    (if a = 240 then 144 \<le> b \<and> b < 192
     else if a = 244 then 128 \<le> b \<and> b < 144
     else continuation b)"

fun valid_utf8 :: "nat list \<Rightarrow> bool" where
  "valid_utf8 [] = True"
| "valid_utf8 (a # rest) =
    (if a < 128 then valid_utf8 rest
     else if 194 \<le> a \<and> a < 224 then
       (case rest of
          b # r \<Rightarrow> continuation b \<and> valid_utf8 r
        | _ \<Rightarrow> False)
     else if 224 \<le> a \<and> a < 240 then
       (case rest of
          b # c # r \<Rightarrow> second_of_three a b \<and> continuation c \<and> valid_utf8 r
        | _ \<Rightarrow> False)
     else if 240 \<le> a \<and> a < 245 then
       (case rest of
          b # c # d # r \<Rightarrow>
            second_of_four a b \<and> continuation c \<and> continuation d \<and> valid_utf8 r
        | _ \<Rightarrow> False)
     else False)"

definition encodable :: "string \<Rightarrow> bool" where
  "encodable s = valid_utf8 (map of_char s)"

definition b64_alphabet :: string where
  "b64_alphabet = ''ABCDEFGHIJKLMNOPQRSTUVWXYZabcdefghijklmnopqrstuvwxyz0123456789+/''"

fun b64_groups :: "nat list \<Rightarrow> string" where
  "b64_groups (a # b # c # rest) =
     (let n = a * 65536 + b * 256 + c
      in [b64_alphabet ! (n div 262144), b64_alphabet ! (n div 4096 mod 64),
          b64_alphabet ! (n div 64 mod 64), b64_alphabet ! (n mod 64)] @ b64_groups rest)"
| "b64_groups [a, b] =
     (let n = a * 65536 + b * 256
      in [b64_alphabet ! (n div 262144), b64_alphabet ! (n div 4096 mod 64),
          b64_alphabet ! (n div 64 mod 64), CHR ''=''])"
| "b64_groups [a] =
     (let n = a * 65536
      in [b64_alphabet ! (n div 262144), b64_alphabet ! (n div 4096 mod 64),
          CHR ''='', CHR ''=''])"
| "b64_groups [] = []"

definition b64encode :: "string \<Rightarrow> string" where
  "b64encode s = b64_groups (map of_char s)"

text \<open>
  \<open>jira_auth_get_connect(url_path, param=..., body=...)\<close>. The body argument is
  represented by what \<open>json.dumps\<close> makes of it: its text, or the exception that
  \<open>json.dumps\<close> raises on it (a set, say). Four lines stand before the \<open>try\<close> block and
  can raise past the function: \<open>json.dumps(body)\<close>; the two concatenations, which raise
  \<open>TypeError\<close> when a configuration value is \<open>None\<close>; and the encoding of the
  credentials. In none of these cases is a request made. The serialised body is never
  passed to \<open>requests.get\<close>. Inside the \<open>try\<close>, \<open>raise_for_status\<close> raises
  \<open>requests.exceptions.HTTPError\<close> for a status from 400 to 599. That class does not
  derive from \<open>urllib.error.HTTPError\<close>, which the first handler names, so the second
  handler (\<open>except Exception\<close>) catches it; both handlers return the exception. The
  diagnostic line that is printed is not modelled. The exchanges made are appended to a
  log.
\<close>

definition jira_auth_get_connect ::
  "env \<Rightarrow> string \<Rightarrow> params option \<Rightarrow> (py_exn + string) option \<Rightarrow> exchange list
     \<Rightarrow> exchange list \<times> (py_exn + reply)" where
  "jira_auth_get_connect e url_path param body_arg sent =
    (case body_arg of Some (Inl x) \<Rightarrow> (sent, Inl x) | _ \<Rightarrow>
     case server e of None \<Rightarrow> (sent, Inl TypeError) | Some srv \<Rightarrow>
     case user e of None \<Rightarrow> (sent, Inl TypeError) | Some usr \<Rightarrow>
     case apikey e of None \<Rightarrow> (sent, Inl TypeError) | Some key \<Rightarrow>
       let auth_string = usr @ '':'' @ key
       in if \<not> encodable auth_string then (sent, Inl UnicodeEncodeError)
          else
            let signature = b64encode auth_string;
                req = \<lparr>url = srv @ url_path, query = param,
                       headers = [(''Accept'', ''application/json''),
                                  (''Content-Type'', ''application/json''),
                                  (''Authorization'', ''Basic '' @ signature)]\<rparr>
            in case requests_get e req of
                 Raised err \<Rightarrow> (sent @ [(req, Raised err)], Inr (ErrorValue err))
               | Returned r \<Rightarrow>
                   if 400 \<le> status_code r \<and> status_code r < 600
                   then (sent @ [(req, Returned r)], Inr (ErrorValue HTTPError))
                   else (sent @ [(req, Returned r)], Inr (Response r)))"

section \<open>The paginated fetchers\<close>

text \<open>
  \<open>json.loads(response.text)[key]\<close> followed by \<open>all.extend(block)\<close> and \<open>len(block)\<close>.
  An exception returned as a value has no attribute \<open>text\<close>. Subscripting with a string
  needs a dict that has the key. \<open>extend\<close> iterates: a list gives its elements, a string
  its characters, a dict its keys; anything else raises.
\<close>

definition subscript :: "json \<Rightarrow> string \<Rightarrow> py_exn + json" where
  "subscript j k =
    (case j of
       JObj kvs \<Rightarrow> (case map_of kvs k of None \<Rightarrow> Inl KeyError | Some v \<Rightarrow> Inr v)
     | _ \<Rightarrow> Inl TypeError)"

text \<open>The elements of a list without repetitions, each at the place of its first occurrence.\<close>

definition first_occurrences :: "'a list \<Rightarrow> 'a list" where
  "first_occurrences xs = rev (remdups (rev xs))"

definition py_iter :: "json \<Rightarrow> py_exn + json list" where
  "py_iter v =
    (case v of
       JArr xs \<Rightarrow> Inr xs
     | JStr s \<Rightarrow> Inr (map (\<lambda>c. JStr [c]) s)
     | JObj kvs \<Rightarrow> Inr (map JStr (first_occurrences (map fst kvs)))
     | _ \<Rightarrow> Inl TypeError)"

text \<open>
  The six fetchers are one loop, written out six times in the notebook. They differ in
  the path, in the key of the result array, in an optional extra query parameter, and in
  two further respects:
  \<^item> \<open>guarded\<close>: \<open>jira_get_sprints\<close>, \<open>jira_get_backlog_issues\<close> and
    \<open>jira_get_sprint_issues\<close> test \<open>type(response) is not requests.exceptions.HTTPError\<close>
    and leave the loop otherwise; \<open>jira_get_issues\<close>, \<open>jira_get_all_projects\<close> and
    \<open>jira_get_boards\<close> have no such test;
  \<^item> \<open>json_bound\<close>: \<open>jira_get_backlog_issues\<close> calls \<open>json.loads\<close> without importing
    \<open>json\<close>, and the notebook imports it nowhere at top level, so the name is unbound
    there.
  The block size is the literal 100 in each of them.
\<close>

record fetcher =
  path :: string
  array_key :: string
  extra_params :: "(string \<times> string) list"
  block_size :: nat
  guarded :: bool
  json_bound :: bool

definition read_block :: "fetcher \<Rightarrow> reply \<Rightarrow> py_exn + json list" where
  "read_block f r =
    (if \<not> json_bound f then Inl NameError
     else case r of
            ErrorValue err \<Rightarrow> Inl AttributeError
          | Response resp \<Rightarrow>
              (case body resp of
                 None \<Rightarrow> Inl JSONDecodeError
               | Some j \<Rightarrow>
                   (case subscript j (array_key f) of
                      Inl x \<Rightarrow> Inl x
                    | Inr v \<Rightarrow> py_iter v)))"

text \<open>
  The \<open>while has_next\<close> loop, with its variables \<open>all_issues\<close> and \<open>start_position\<close> as
  arguments. Nothing bounds the number of iterations: against a server that never
  sends an empty page the loop does not end, and the value is \<open>None\<close>.
\<close>

partial_function (option) fetch_loop ::
  "env \<Rightarrow> fetcher \<Rightarrow> json list \<Rightarrow> nat \<Rightarrow> exchange list
     \<Rightarrow> (exchange list \<times> (py_exn + json list)) option" where
  "fetch_loop e f all_items start_position sent =
    (case jira_auth_get_connect e (path f)
            (Some \<lparr>startAt = start_position, maxResults = block_size f,
                   extra = extra_params f\<rparr>) None sent of
       (sent', Inl x) \<Rightarrow> Some (sent', Inl x)
     | (sent', Inr response) \<Rightarrow>
         if guarded f \<and> response = ErrorValue HTTPError then Some (sent', Inr all_items)
         else (case read_block f response of
                 Inl x \<Rightarrow> Some (sent', Inl x)
               | Inr items_in_block \<Rightarrow>
                   if length items_in_block = 0
                   then Some (sent', Inr (all_items @ items_in_block))
                   else fetch_loop e f (all_items @ items_in_block)
                          (start_position + block_size f) sent'))"

section \<open>Tables\<close>

text \<open>
  A pandas DataFrame is its column labels, in order, and its rows, each a list of cells
  as long as the list of labels. Labels can repeat (renaming can make two equal), so the
  columns are positions, not a map from labels. Every table here has the default index
  \<open>0 .. n-1\<close>, which therefore is not represented.
\<close>

record dataframe =
  columns :: "string list"
  rows :: "json list list"

definition well_formed :: "dataframe \<Rightarrow> bool" where
  "well_formed df = (\<forall>r \<in> set (rows df). length r = length (columns df))"

text \<open>
  \<open>pd.json_normalize\<close> on a list of records: nested dicts are flattened into dotted
  paths, lists stay cells. The columns are the paths in order of first appearance, a
  record without a path has a null cell there. The order in which pandas lists the
  columns depends on its version; nothing below depends on it. An element that is not a
  dict has no items to flatten and is rejected with \<open>AttributeError\<close> (later versions of
  pandas yield an all-null row instead; Jira sends objects only).
\<close>

fun flatten :: "string \<Rightarrow> json \<Rightarrow> (string \<times> json) list" where
  "flatten prefix (JObj kvs) =
     concat (map (\<lambda>kv. flatten (prefix @ ''.'' @ fst kv) (snd kv)) kvs)"
| "flatten prefix v = [(prefix, v)]"

fun flatten_record :: "json \<Rightarrow> (string \<times> json) list" where
  "flatten_record (JObj kvs) = concat (map (\<lambda>kv. flatten (fst kv) (snd kv)) kvs)"
| "flatten_record v = []"

fun is_dict :: "json \<Rightarrow> bool" where
  "is_dict (JObj kvs) = True"
| "is_dict v = False"

definition cell_of :: "(string \<times> json) list \<Rightarrow> string \<Rightarrow> json" where
  "cell_of r c = (case map_of r c of Some v \<Rightarrow> v | None \<Rightarrow> JNull)"

definition json_normalize :: "json list \<Rightarrow> py_exn + dataframe" where
  "json_normalize data =
    (if \<exists>x \<in> set data. \<not> is_dict x then Inl AttributeError
     else let recs = map flatten_record data;
              cols = first_occurrences (concat (map (map fst) recs))
          in Inr \<lparr>columns = cols, rows = map (\<lambda>r. map (cell_of r) cols) recs\<rparr>)"

subsection \<open>Selecting and renaming columns\<close>

text \<open>
  A cell of a row by position; the positions at which a label stands; the table made of the
  columns at given positions. \<open>df[labels]\<close> takes, for each label in turn, every column
  that carries it, and raises \<open>KeyError\<close> when a label is missing.
\<close>

definition cell :: "json list \<Rightarrow> nat \<Rightarrow> json" where
  "cell r i = (if i < length r then r ! i else JNull)"

definition positions :: "string \<Rightarrow> string list \<Rightarrow> nat list" where
  "positions l cs = filter (\<lambda>i. cs ! i = l) [0..<length cs]"

definition pick :: "nat list \<Rightarrow> dataframe \<Rightarrow> dataframe" where
  "pick idx df =
    \<lparr>columns = map (\<lambda>i. columns df ! i) idx, rows = map (\<lambda>r. map (cell r) idx) (rows df)\<rparr>"

definition label_positions :: "string list \<Rightarrow> dataframe \<Rightarrow> nat list" where
  "label_positions labels df = concat (map (\<lambda>l. positions l (columns df)) labels)"

definition getitem :: "string list \<Rightarrow> dataframe \<Rightarrow> py_exn + dataframe" where
  "getitem labels df =
    (if \<exists>l \<in> set labels. l \<notin> set (columns df) then Inl KeyError
     else Inr (pick (label_positions labels df) df))"

text \<open>
  \<open>df_issues[df_issues.columns[df_issues.columns.isin(RELEVANT_FIELDS)]]\<close>: the labels
  of the table that are in the whitelist, then the columns with these labels. The labels
  come from the table itself, so none is missing.
\<close>

definition select_relevant :: "dataframe \<Rightarrow> dataframe" where
  "select_relevant df =
    pick (label_positions (filter (\<lambda>c. c \<in> set RELEVANT_FIELDS) (columns df)) df) df"

text \<open>\<open>df.rename(columns=d)\<close>: each label that is a key of the dict is replaced by its value.\<close>

definition new_name :: "(string \<times> string) list \<Rightarrow> string \<Rightarrow> string" where
  "new_name d c = (case map_of d c of Some n \<Rightarrow> n | None \<Rightarrow> c)"

definition rename_columns :: "(string \<times> string) list \<Rightarrow> dataframe \<Rightarrow> dataframe" where
  "rename_columns d df = \<lparr>columns = map (new_name d) (columns df), rows = rows df\<rparr>"

text \<open>The first two lines of the enrichment cell: projection, then renaming.\<close>

definition project_rename :: "dataframe \<Rightarrow> dataframe" where
  "project_rename df_issues = rename_columns COLUMN_NAME_DICT (select_relevant df_issues)"

text \<open>The values of the column at a position, row by row.\<close>

definition column_at :: "dataframe \<Rightarrow> nat \<Rightarrow> json list" where
  "column_at df i = map (\<lambda>r. cell r i) (rows df)"

text \<open>
  A fetcher runs the loop from offset 0 with nothing accumulated and normalises what the
  loop returns.
\<close>

definition paginate ::
  "env \<Rightarrow> fetcher \<Rightarrow> (exchange list \<times> (py_exn + dataframe)) option" where
  "paginate e f =
    (case fetch_loop e f [] 0 [] of
       None \<Rightarrow> None
     | Some (sent, Inl x) \<Rightarrow> Some (sent, Inl x)
     | Some (sent, Inr all_items) \<Rightarrow> Some (sent, json_normalize all_items))"

definition jira_get_issues ::
  "env \<Rightarrow> string \<Rightarrow> (exchange list \<times> (py_exn + dataframe)) option" where
  "jira_get_issues e jql =
    paginate e \<lparr>path = ''/rest/api/latest/search'', array_key = ''issues'',
                extra_params = (if jql \<noteq> [] then [(''jql'', jql)] else []),
                block_size = 100, guarded = False, json_bound = True\<rparr>"

definition jira_get_all_projects ::
  "env \<Rightarrow> (exchange list \<times> (py_exn + dataframe)) option" where
  "jira_get_all_projects e =
    paginate e \<lparr>path = ''/rest/api/latest/project/search'', array_key = ''values'',
                extra_params = [],
                block_size = 100, guarded = False, json_bound = True\<rparr>"

definition jira_get_boards ::
  "env \<Rightarrow> string \<Rightarrow> (exchange list \<times> (py_exn + dataframe)) option" where
  "jira_get_boards e project_key =
    paginate e \<lparr>path = ''/rest/agile/1.0/board'', array_key = ''values'',
                extra_params =
                  (if project_key \<noteq> [] then [(''projectKeyOrId'', project_key)] else []),
                block_size = 100, guarded = False, json_bound = True\<rparr>"

definition jira_get_sprints ::
  "env \<Rightarrow> json \<Rightarrow> (exchange list \<times> (py_exn + dataframe)) option" where
  "jira_get_sprints e board_id =
    paginate e \<lparr>path = ''/rest/agile/1.0/board/'' @ py_str e board_id @ ''/sprint'',
                array_key = ''values'', extra_params = [],
                block_size = 100, guarded = True, json_bound = True\<rparr>"

definition jira_get_backlog_issues ::
  "env \<Rightarrow> json \<Rightarrow> (exchange list \<times> (py_exn + dataframe)) option" where
  "jira_get_backlog_issues e board_id =
    paginate e \<lparr>path = ''/rest/agile/1.0/board/'' @ py_str e board_id @ ''/backlog'',
                array_key = ''issues'', extra_params = [],
                block_size = 100, guarded = True, json_bound = False\<rparr>"

definition jira_get_sprint_issues ::
  "env \<Rightarrow> json \<Rightarrow> (exchange list \<times> (py_exn + dataframe)) option" where
  "jira_get_sprint_issues e sprint_id =
    paginate e \<lparr>path = ''/rest/agile/1.0/sprint/'' @ py_str e sprint_id @ ''/issue'',
                array_key = ''issues'', extra_params = [],
                block_size = 100, guarded = True, json_bound = True\<rparr>"

subsection \<open>A server holding a fixed number of records\<close>

text \<open>
  The server of the pagination properties: it holds the records \<open>0 .. R-1\<close> and answers
  a request at offset \<open>k\<close> for at most \<open>n\<close> records with status 200 and the records from
  \<open>k\<close> up to \<open>min (k + n) R\<close>, which are \<open>min n (R - k)\<close> many, under the given key.
\<close>

definition record_no :: "nat \<Rightarrow> json" where
  "record_no i = JObj [(''id'', JNum (of_nat i))]"

definition paged_server :: "string \<Rightarrow> nat \<Rightarrow> request \<Rightarrow> http_result" where
  "paged_server key R req =
    (case query req of
       None \<Rightarrow> Returned \<lparr>status_code = 400, body = None\<rparr>
     | Some p \<Rightarrow>
         Returned \<lparr>status_code = 200,
                   body = Some (JObj [(key, JArr (map record_no
                            [startAt p ..< min (startAt p + maxResults p) R]))])\<rparr>)"

text \<open>Reading a log: the offset a request asked for, and how many elements came back.\<close>

definition offset_of :: "exchange \<Rightarrow> nat" where
  "offset_of x = (case query (fst x) of Some p \<Rightarrow> startAt p | None \<Rightarrow> 0)"

definition returned_count :: "string \<Rightarrow> exchange \<Rightarrow> nat" where
  "returned_count key x =
    (case snd x of
       Raised err \<Rightarrow> 0
     | Returned r \<Rightarrow>
         (case body r of
            Some (JObj kvs) \<Rightarrow> (case map_of kvs key of Some (JArr xs) \<Rightarrow> length xs | _ \<Rightarrow> 0)
          | _ \<Rightarrow> 0))"

text \<open>
  The number of requests the loop makes from offset \<open>k\<close> on against that server: one
  for every page that still holds a record, and one more.
\<close>

definition pages :: "nat \<Rightarrow> nat \<Rightarrow> nat \<Rightarrow> nat" where
  "pages N R k = (R - k + N - 1) div N + 1"

subsection \<open>Concrete surroundings\<close>

text \<open>
  A complete configuration around a given server, with a \<open>str\<close> that prints strings as
  they are and natural numbers in decimal; a server that answers every request with one
  status and no JSON; and a transport that always fails.
\<close>

fun digits :: "nat \<Rightarrow> string" where
  "digits n =
     (if n < 10 then [char_of (48 + n)] else digits (n div 10) @ [char_of (48 + n mod 10)])"

declare digits.simps [simp del]

definition demo_str :: "json \<Rightarrow> string" where
  "demo_str v =
    (case v of JStr s \<Rightarrow> s | JNum q \<Rightarrow> digits (nat \<lfloor>q\<rfloor>) | _ \<Rightarrow> ''None'')"

definition demo_env :: "(request \<Rightarrow> http_result) \<Rightarrow> env" where
  "demo_env srv =
    \<lparr>server = Some ''https://jira.example.org'', user = Some ''me@example.org'',
     apikey = Some ''token'', requests_get = srv, py_str = demo_str\<rparr>"

definition status_server :: "nat \<Rightarrow> request \<Rightarrow> http_result" where
  "status_server code req = Returned \<lparr>status_code = code, body = None\<rparr>"

definition raising_server :: "requests_error \<Rightarrow> request \<Rightarrow> http_result" where
  "raising_server err req = Raised err"

definition requests_made :: "(exchange list \<times> 'a) option \<Rightarrow> nat option" where
  "requests_made r = map_option (\<lambda>x. length (fst x)) r"

definition outcome :: "(exchange list \<times> 'a) option \<Rightarrow> 'a option" where
  "outcome r = map_option snd r"

section \<open>Enrichment, aggregation and the issues of a board\<close>

text \<open>Sequencing of steps that can raise.\<close>

definition then_do :: "py_exn + 'a \<Rightarrow> ('a \<Rightarrow> py_exn + 'b) \<Rightarrow> py_exn + 'b" where
  "then_do x f = (case x of Inl err \<Rightarrow> Inl err | Inr v \<Rightarrow> f v)"

fun sequence :: "(py_exn + 'a) list \<Rightarrow> py_exn + 'a list" where
  "sequence [] = Inr []"
| "sequence (x # xs) =
     (case x of
        Inl err \<Rightarrow> Inl err
      | Inr v \<Rightarrow> (case sequence xs of Inl err \<Rightarrow> Inl err | Inr vs \<Rightarrow> Inr (v # vs)))"

text \<open>
  Operations on one column address it by its label. The pipelines below use them on
  labels that stand at one position only; the position taken is the first.
\<close>

definition find_column :: "string \<Rightarrow> dataframe \<Rightarrow> nat option" where
  "find_column l df = (case positions l (columns df) of [] \<Rightarrow> None | i # rest \<Rightarrow> Some i)"

text \<open>
  \<open>pd.merge(left, right, how='left', left_on=..., right_on=...)\<close> with two different key
  labels, as in both calls of the notebook. A key label that is missing raises
  \<open>KeyError\<close>, one that stands at several positions \<open>ValueError\<close>. Labels that occur on both
  sides get the suffixes \<open>_x\<close> and \<open>_y\<close>. Every left row is kept, in order: it is joined
  with each right row whose key cell equals its own (null keys match each other), or
  with nulls when there is none. The check that pandas makes on the dtypes of the two key
  columns is not modelled.
\<close>

definition suffixed :: "string list \<Rightarrow> string \<Rightarrow> string \<Rightarrow> string" where
  "suffixed overlap sfx c = (if c \<in> set overlap then c @ sfx else c)"

definition merge_left ::
  "dataframe \<Rightarrow> dataframe \<Rightarrow> string \<Rightarrow> string \<Rightarrow> py_exn + dataframe" where
  "merge_left left right left_on right_on =
    (case positions left_on (columns left) of
       [] \<Rightarrow> Inl KeyError
     | i # more_left \<Rightarrow>
         (case positions right_on (columns right) of
            [] \<Rightarrow> Inl KeyError
          | j # more_right \<Rightarrow>
              if more_left \<noteq> [] \<or> more_right \<noteq> [] then Inl ValueError
              else
                let overlap = filter (\<lambda>c. c \<in> set (columns right)) (columns left);
                    width = length (columns right)
                in Inr \<lparr>columns = map (suffixed overlap ''_x'') (columns left)
                                   @ map (suffixed overlap ''_y'') (columns right),
                        rows = concat (map (\<lambda>l.
                                 case filter (\<lambda>r. cell r j = cell l i) (rows right) of
                                   [] \<Rightarrow> [l @ replicate width JNull]
                                 | m # ms \<Rightarrow> map (\<lambda>r. l @ r) (m # ms)) (rows left))\<rparr>))"

text \<open>\<open>df.loc[df[target].isnull(), target] = df[source]\<close>, on the default index.\<close>

definition fill_null_from :: "string \<Rightarrow> string \<Rightarrow> dataframe \<Rightarrow> py_exn + dataframe" where
  "fill_null_from target source df =
    (case find_column source df of
       None \<Rightarrow> Inl KeyError
     | Some s \<Rightarrow>
         (case find_column target df of
            None \<Rightarrow> Inl KeyError
          | Some t \<Rightarrow>
              Inr \<lparr>columns = columns df,
                   rows = map (\<lambda>r. if cell r t = JNull then r[t := cell r s] else r)
                            (rows df)\<rparr>))"

text \<open>\<open>df.drop(labels, axis=1)\<close>.\<close>

definition drop_columns :: "string list \<Rightarrow> dataframe \<Rightarrow> py_exn + dataframe" where
  "drop_columns labels df =
    (if \<exists>l \<in> set labels. l \<notin> set (columns df) then Inl KeyError
     else Inr (pick (filter (\<lambda>i. columns df ! i \<notin> set labels) [0..<length (columns df)]) df))"

text \<open>
  \<open>df[label] = df[label].apply(g)\<close> and \<open>df.label = df.label.fillna(v)\<close>: the cells of one
  column are replaced; the first call of \<open>g\<close> that raises ends the step. Subscripting
  with a missing label raises \<open>KeyError\<close>, attribute access \<open>AttributeError\<close>.
\<close>

definition apply_column ::
  "string \<Rightarrow> (json \<Rightarrow> py_exn + json) \<Rightarrow> py_exn \<Rightarrow> dataframe \<Rightarrow> py_exn + dataframe" where
  "apply_column label g missing df =
    (case find_column label df of
       None \<Rightarrow> Inl missing
     | Some i \<Rightarrow>
         (case sequence (map (\<lambda>r. g (cell r i)) (rows df)) of
            Inl err \<Rightarrow> Inl err
          | Inr vs \<Rightarrow>
              Inr \<lparr>columns = columns df,
                   rows = map (\<lambda>rv. (fst rv)[i := snd rv]) (zip (rows df) vs)\<rparr>))"

definition fillna :: "json \<Rightarrow> json \<Rightarrow> py_exn + json" where
  "fillna v x = Inr (if x = JNull then v else x)"

definition color_cell :: "json \<Rightarrow> py_exn + json" where
  "color_cell x = (case color_replace x of Inl err \<Rightarrow> Inl err | Inr c \<Rightarrow> Inr (JStr c))"

text \<open>
  The enrichment cell after its first two lines: the self-join on
  \<open>parent_id = issue_id\<close> against the columns \<open>issue_id\<close>, \<open>epic_name\<close>, \<open>epic_color\<close>, the
  two substitutions, the removal of the joined columns, the renaming back and the
  default for the epic name; then the three colour replacements.
\<close>

definition epic_backfill :: "dataframe \<Rightarrow> py_exn + dataframe" where
  "epic_backfill df_issues_enhanced =
    then_do (getitem [''issue_id'', ''epic_name'', ''epic_color''] df_issues_enhanced)
      (\<lambda>df_epics.
    then_do (merge_left df_issues_enhanced df_epics ''parent_id'' ''issue_id'') (\<lambda>m1.
    then_do (fill_null_from ''epic_name_x'' ''epic_name_y'' m1) (\<lambda>m2.
    then_do (fill_null_from ''epic_color_x'' ''epic_color_y'' m2) (\<lambda>m3.
    then_do (drop_columns [''issue_id_y'', ''epic_name_y'', ''epic_color_y''] m3) (\<lambda>m4.
    apply_column ''epic_name'' (fillna (JStr ''No Epic'')) AttributeError
      (rename_columns [(''issue_id_x'', ''issue_id''), (''epic_name_x'', ''epic_name''),
                       (''epic_color_x'', ''epic_color'')] m4))))))"

definition replace_colors :: "dataframe \<Rightarrow> py_exn + dataframe" where
  "replace_colors df =
    then_do (apply_column ''epic_color'' color_cell KeyError df) (\<lambda>d1.
    then_do (apply_column ''status_cat_color'' color_cell KeyError d1) (\<lambda>d2.
    apply_column ''parent_status_cat_color'' color_cell KeyError d2))"

definition enhance :: "dataframe \<Rightarrow> py_exn + dataframe" where
  "enhance df_issues = then_do (epic_backfill (project_rename df_issues)) replace_colors"

text \<open>The value of the column with a label, in the row with a number.\<close>

definition value_at :: "dataframe \<Rightarrow> nat \<Rightarrow> string \<Rightarrow> json" where
  "value_at df i l =
    (case find_column l df of
       None \<Rightarrow> JNull
     | Some p \<Rightarrow> if i < length (rows df) then cell (rows df ! i) p else JNull)"

subsection \<open>The issues of a board\<close>

text \<open>
  \<open>jira_get_board_issues\<close> selects nine fixed columns from the issue table of every sprint
  and names the ten columns of the assembled table.
\<close>

definition sprint_issue_columns :: "string list" where
  "sprint_issue_columns =
    [''id'', ''key'', ''fields.project.name'', ''fields.project.id'', ''fields.issuetype.name'',
     ''fields.status.name'', ''fields.status.statusCategory.name'', ''fields.priority.name'',
     ''fields.customfield_10026'']"

definition board_issue_columns :: "string list" where
  "board_issue_columns =
    [''issue_id'', ''issue_key'', ''project_name'', ''project_id'', ''issuetype'', ''status'',
     ''status_cat_name'', ''prio'', ''storypoints'', ''sprint_id'']"

text \<open>\<open>df[label] = value\<close>: a new last column, or the cells of the existing one.\<close>

definition assign_column :: "string \<Rightarrow> json \<Rightarrow> dataframe \<Rightarrow> dataframe" where
  "assign_column label v df =
    (case find_column label df of
       None \<Rightarrow> \<lparr>columns = columns df @ [label], rows = map (\<lambda>r. r @ [v]) (rows df)\<rparr>
     | Some i \<Rightarrow> \<lparr>columns = columns df, rows = map (\<lambda>r. r[i := v]) (rows df)\<rparr>)"

text \<open>
  The \<open>for sprint_id in sprint_ids\<close> loop, with \<open>issue_rows\<close> as accumulator. A fetch
  that does not end leaves the whole function without a value; an exception of the fetch
  or of the column selection leaves the loop.
\<close>

fun collect_issue_rows ::
  "env \<Rightarrow> json list \<Rightarrow> json list list \<Rightarrow> (py_exn + json list list) option" where
  "collect_issue_rows e [] issue_rows = Some (Inr issue_rows)"
| "collect_issue_rows e (sprint_id # rest) issue_rows =
    (case outcome (jira_get_sprint_issues e sprint_id) of
       None \<Rightarrow> None
     | Some (Inl x) \<Rightarrow> Some (Inl x)
     | Some (Inr fetched) \<Rightarrow>
         (case getitem sprint_issue_columns fetched of
            Inl x \<Rightarrow> Some (Inl x)
          | Inr df_issues \<Rightarrow>
              collect_issue_rows e rest
                (issue_rows @ rows (assign_column ''sprint'' sprint_id df_issues))))"

text \<open>
  \<open>pd.DataFrame(issue_rows)\<close> followed by the assignment of ten labels (which needs ten
  columns, and a table made from no rows has none), the left join with the sprint table,
  the removal of three of its columns and the renaming of the others.
\<close>

definition assemble_board_issues :: "json list list \<Rightarrow> dataframe \<Rightarrow> py_exn + dataframe" where
  "assemble_board_issues issue_rows df_all_sprints =
    (if issue_rows = [] then Inl ValueError
     else
       then_do (merge_left \<lparr>columns = board_issue_columns, rows = issue_rows\<rparr> df_all_sprints
                  ''sprint_id'' ''id'') (\<lambda>df_board_issues_enhanced.
       then_do (drop_columns [''id'', ''self'', ''goal''] df_board_issues_enhanced) (\<lambda>dropped.
       Inr (rename_columns
              [(''name'', ''sprint_name''), (''state'', ''sprint_state''),
               (''startDate'', ''sprint_start_date''), (''endDate'', ''sprint_end_date''),
               (''completeDate'', ''sprint_complete_date''), (''originBoardId'', ''board_id'')]
              dropped))))"

text \<open>\<open>df_all_sprints.id.to_list()\<close>: attribute access needs a column of that name.\<close>

definition id_to_list :: "dataframe \<Rightarrow> py_exn + json list" where
  "id_to_list df =
    (case find_column ''id'' df of
       None \<Rightarrow> Inl AttributeError
     | Some i \<Rightarrow> Inr (column_at df i))"

definition jira_get_board_issues :: "env \<Rightarrow> json \<Rightarrow> (py_exn + dataframe) option" where
  "jira_get_board_issues e board_id =
    (case outcome (jira_get_sprints e board_id) of
       None \<Rightarrow> None
     | Some (Inl x) \<Rightarrow> Some (Inl x)
     | Some (Inr df_all_sprints) \<Rightarrow>
         (case id_to_list df_all_sprints of
            Inl x \<Rightarrow> Some (Inl x)
          | Inr sprint_ids \<Rightarrow>
              (case collect_issue_rows e sprint_ids [] of
                 None \<Rightarrow> None
               | Some (Inl x) \<Rightarrow> Some (Inl x)
               | Some (Inr issue_rows) \<Rightarrow>
                   Some (assemble_board_issues issue_rows df_all_sprints))))"

subsection \<open>Aggregation\<close>

text \<open>
  \<open>df.query("issuetype != 'Epic'")\<close>: the rows whose issue type is not the string
  \<open>Epic\<close> (a null type is not); a table without that column makes the name undefined.
\<close>

definition query_not_epic :: "dataframe \<Rightarrow> py_exn + dataframe" where
  "query_not_epic df =
    (case find_column ''issuetype'' df of
       None \<Rightarrow> Inl NameError
     | Some i \<Rightarrow>
         Inr \<lparr>columns = columns df, rows = filter (\<lambda>r. cell r i \<noteq> JStr ''Epic'') (rows df)\<rparr>)"

text \<open>
  The order of group keys. The keys of the notebook's groupings are strings, which pandas
  sorts by code point, that is bytewise on UTF-8; numbers are sorted by value and stand
  before strings.
\<close>

fun str_le :: "string \<Rightarrow> string \<Rightarrow> bool" where
  "str_le [] ys = True"
| "str_le (x # xs) [] = False"
| "str_le (x # xs) (y # ys) =
     ((of_char x :: nat) < of_char y \<or> (x = y \<and> str_le xs ys))"

fun cell_le :: "json \<Rightarrow> json \<Rightarrow> bool" where
  "cell_le (JStr a) (JStr b) = str_le a b"
| "cell_le (JNum a) (JNum b) = (a \<le> b)"
| "cell_le (JNum a) (JStr b) = True"
| "cell_le (JStr a) (JNum b) = False"
| "cell_le a b = True"

fun key_le :: "json list \<Rightarrow> json list \<Rightarrow> bool" where
  "key_le [] ys = True"
| "key_le (x # xs) [] = False"
| "key_le (x # xs) (y # ys) = (if x = y then key_le xs ys else cell_le x y)"

fun insert_key :: "json list \<Rightarrow> json list list \<Rightarrow> json list list" where
  "insert_key k [] = [k]"
| "insert_key k (g # gs) = (if key_le k g then k # g # gs else g # insert_key k gs)"

definition sort_keys :: "json list list \<Rightarrow> json list list" where
  "sort_keys ks = foldr insert_key ks []"

text \<open>
  What a cell of the measure contributes to \<open>sum\<close> and to \<open>count\<close>: a number (a boolean
  counts as 0 or 1) contributes itself and is counted, a null contributes nothing and is
  not counted.
\<close>

fun measured :: "json \<Rightarrow> rat list" where
  "measured (JNum q) = [q]"
| "measured (JBool b) = [if b then 1 else 0]"
| "measured v = []"

fun summable :: "json \<Rightarrow> bool" where
  "summable (JNum q) = True"
| "summable (JBool b) = True"
| "summable JNull = True"
| "summable v = False"

text \<open>
  \<open>df.groupby(keys)[label].agg(storypoints='sum', issue_count='count').reset_index()\<close>
  with the defaults of pandas: rows with a null in a key are left out, the groups are
  sorted by key, \<open>sum\<close> adds the cells of the measure that are not null (0 when there is
  none), and \<open>count\<close> is the number of cells of the measure that are not null. A key cell
  that is a list cannot be hashed; a measure that is neither number nor null cannot be
  summed.
\<close>

definition groupby_sum_count :: "string list \<Rightarrow> string \<Rightarrow> dataframe \<Rightarrow> py_exn + dataframe" where
  "groupby_sum_count keys measured_label df =
    (case sequence (map (\<lambda>k. case find_column k df of None \<Rightarrow> Inl KeyError
                                                     | Some i \<Rightarrow> Inr i) (keys @ [measured_label])) of
       Inl x \<Rightarrow> Inl x
     | Inr found \<Rightarrow>
         let ks = butlast found; m = last found;
             kept = filter (\<lambda>r. list_all (\<lambda>i. cell r i \<noteq> JNull) ks) (rows df);
             key_of = (\<lambda>r. map (cell r) ks);
             groups = sort_keys (first_occurrences (map key_of kept))
         in if list_ex (\<lambda>r. list_ex (\<lambda>i. \<not> hashable (cell r i)) ks) kept then Inl TypeError
            else if list_ex (\<lambda>r. \<not> summable (cell r m)) kept then Inl TypeError
            else Inr \<lparr>columns = keys @ [''storypoints'', ''issue_count''],
                      rows = map (\<lambda>g.
                               let vs = concat (map (\<lambda>r. measured (cell r m))
                                                  (filter (\<lambda>r. key_of r = g) kept))
                               in g @ [JNum (sum_list vs), JNum (of_nat (length vs))])
                             groups\<rparr>)"

text \<open>The query of section 4.1 of the notebook.\<close>

definition df_issues_per_type :: "dataframe \<Rightarrow> py_exn + dataframe" where
  "df_issues_per_type df_issues_enhanced =
    then_do (query_not_epic df_issues_enhanced) (\<lambda>q.
    then_do (getitem [''issuetype'', ''status_cat_name'', ''storypoints'', ''prio''] q)
      (groupby_sum_count [''issuetype'', ''status_cat_name'', ''prio''] ''storypoints''))"

text \<open>
  For the statements about the backfill: the epic name found through the parent, that is
  the cell at position \<open>xn\<close> of the first row whose cell at \<open>xi\<close> (the issue id) equals
  the cell at \<open>xp\<close> (the parent id) of the given row; null when there is no such row.
\<close>

definition parent_epic :: "dataframe \<Rightarrow> nat \<Rightarrow> nat \<Rightarrow> nat \<Rightarrow> json list \<Rightarrow> json" where
  "parent_epic e xi xn xp l =
    (case filter (\<lambda>q. cell q xi = cell l xp) (rows e) of [] \<Rightarrow> JNull | q # qs \<Rightarrow> cell q xn)"

text \<open>
  A small flattened issue table (an epic, a child of it without an epic name of its own,
  and an issue without parent and epic), and what the enrichment cell makes of it.
\<close>

definition demo_issues :: dataframe where
  "demo_issues =
    \<lparr>columns = [''id'', ''fields.customfield_10011'', ''fields.customfield_10017'',
                ''fields.parent.id'', ''fields.status.statusCategory.colorName'',
                ''fields.parent.fields.status.statusCategory.colorName''],
     rows = [[JStr ''1'', JStr ''Feature X'', JStr ''purple'', JNull, JStr ''green'', JNull],
             [JStr ''2'', JNull, JNull, JStr ''1'', JStr ''blue-gray'', JStr ''green''],
             [JStr ''3'', JNull, JNull, JNull, JStr ''yellow'', JNull]]\<rparr>"

definition demo_enhanced :: dataframe where
  "demo_enhanced =
    \<lparr>columns = [''issue_id'', ''epic_name'', ''epic_color'', ''parent_id'', ''status_cat_color'',
                ''parent_status_cat_color''],
     rows = [[JStr ''1'', JStr ''Feature X'', JStr ''purple'', JNull, JStr ''green'', JStr ''white''],
             [JStr ''2'', JStr ''Feature X'', JStr ''purple'', JStr ''1'', JStr ''dodgerblue'',
              JStr ''green''],
             [JStr ''3'', JStr ''No Epic'', JStr ''white'', JNull, JStr ''orange'', JStr ''white'']]\<rparr>"

text \<open>
  A board with one sprint, number 32, whose issues are given; every request beyond the
  first page comes back empty.
\<close>

definition demo_issue :: json where
  "demo_issue =
    JObj [(''id'', JStr ''10001''), (''key'', JStr ''ABC-1''),
          (''fields'', JObj [(''project'', JObj [(''name'', JStr ''abc''), (''id'', JStr ''1'')]),
                             (''issuetype'', JObj [(''name'', JStr ''Task'')]),
                             (''status'', JObj [(''name'', JStr ''Done''),
                                (''statusCategory'', JObj [(''name'', JStr ''Done'')])]),
                             (''priority'', JObj [(''name'', JStr ''High'')]),
                             (''customfield_10026'', JNum 3)])]"

definition demo_sprint :: json where
  "demo_sprint =
    JObj [(''id'', JNum 32), (''self'', JStr ''https://jira.example.org/sprint/32''),
          (''state'', JStr ''closed''), (''name'', JStr ''Sprint 1''), (''goal'', JStr [])]"

definition board_server :: "json list \<Rightarrow> request \<Rightarrow> http_result" where
  "board_server sprint_issues req =
    (if query req = Some \<lparr>startAt = 0, maxResults = 100, extra = []\<rparr> then
       if url req = ''https://jira.example.org/rest/agile/1.0/board/7/sprint''
       then Returned \<lparr>status_code = 200, body = Some (JObj [(''values'', JArr [demo_sprint])])\<rparr>
       else if url req = ''https://jira.example.org/rest/agile/1.0/sprint/32/issue''
       then Returned \<lparr>status_code = 200, body = Some (JObj [(''issues'', JArr sprint_issues)])\<rparr>
       else Returned \<lparr>status_code = 404, body = None\<rparr>
     else Returned \<lparr>status_code = 200, body = Some (JObj [(''values'', JArr []), (''issues'', JArr [])])\<rparr>)"

definition demo_sprint_table :: dataframe where
  "demo_sprint_table =
    \<lparr>columns = [''id'', ''self'', ''state'', ''name'', ''goal''],
     rows = [[JNum 32, JStr ''https://jira.example.org/sprint/32'', JStr ''closed'',
              JStr ''Sprint 1'', JStr []]]\<rparr>"

definition demo_sprint_issue_table :: dataframe where
  "demo_sprint_issue_table =
    \<lparr>columns = [''id'', ''key'', ''fields.project.name'', ''fields.project.id'',
                ''fields.issuetype.name'', ''fields.status.name'',
                ''fields.status.statusCategory.name'', ''fields.priority.name'',
                ''fields.customfield_10026''],
     rows = [[JStr ''10001'', JStr ''ABC-1'', JStr ''abc'', JStr ''1'', JStr ''Task'', JStr ''Done'',
              JStr ''Done'', JStr ''High'', JNum 3]]\<rparr>"

definition demo_board_table :: dataframe where
  "demo_board_table =
    \<lparr>columns = [''issue_id'', ''issue_key'', ''project_name'', ''project_id'', ''issuetype'',
                ''status'', ''status_cat_name'', ''prio'', ''storypoints'', ''sprint_id'',
                ''sprint_state'', ''sprint_name''],
     rows = [[JStr ''10001'', JStr ''ABC-1'', JStr ''abc'', JStr ''1'', JStr ''Task'', JStr ''Done'',
              JStr ''Done'', JStr ''High'', JNum 3, JNum 32, JStr ''closed'', JStr ''Sprint 1'']]\<rparr>"

section \<open>Theorems\<close>

subsection \<open>Colour translation\<close>

text \<open>
  C9, as amended. Colour translation sends each of the ten Jira keywords to its fixed
  display colour, and every other value that can be a dict key (any other string, the
  empty string among them, a missing value, a number, a boolean) to white. It is not
  total: on a cell that holds a list or a dict, which cannot be hashed, the lookup raises
  \<open>TypeError\<close>.
\<close>

theorem color_replace_total:
  "color_replace (JStr ''purple'') = Inr ''purple'' \<and>
   color_replace (JStr ''dark_blue'') = Inr ''darkblue'' \<and>
   color_replace (JStr ''yellow'') = Inr ''orange'' \<and>
   color_replace (JStr ''grey'') = Inr ''grey'' \<and>
   color_replace (JStr ''dark_purple'') = Inr ''purple'' \<and>
   color_replace (JStr ''blue'') = Inr ''blue'' \<and>
   color_replace (JStr ''dark_orange'') = Inr ''orange'' \<and>
   color_replace (JStr ''dark_yellow'') = Inr ''gold'' \<and>
   color_replace (JStr ''blue-gray'') = Inr ''dodgerblue'' \<and>
   color_replace (JStr ''green'') = Inr ''green'' \<and>
   color_replace (JStr []) = Inr ''white'' \<and>
   color_replace JNull = Inr ''white'' \<and>
   (\<forall>x. hashable x \<longrightarrow> x \<notin> JStr ` fst ` set COLOR_DICT \<longrightarrow> color_replace x = Inr ''white'') \<and>
   (\<forall>x. \<not> hashable x \<longrightarrow> color_replace x = Inl TypeError)"
proof -
  have keys: "color_replace (JStr ''purple'') = Inr ''purple''"
    "color_replace (JStr ''dark_blue'') = Inr ''darkblue''"
    "color_replace (JStr ''yellow'') = Inr ''orange''"
    "color_replace (JStr ''grey'') = Inr ''grey''"
    "color_replace (JStr ''dark_purple'') = Inr ''purple''"
    "color_replace (JStr ''blue'') = Inr ''blue''"
    "color_replace (JStr ''dark_orange'') = Inr ''orange''"
    "color_replace (JStr ''dark_yellow'') = Inr ''gold''"
    "color_replace (JStr ''blue-gray'') = Inr ''dodgerblue''"
    "color_replace (JStr ''green'') = Inr ''green''"
    "color_replace (JStr []) = Inr ''white''"
    "color_replace JNull = Inr ''white''"
    by (simp_all add: color_replace_def COLOR_DICT_def)
  have other: "color_replace x = Inr ''white''"
    if "hashable x" and "x \<notin> JStr ` fst ` set COLOR_DICT" for x
  proof (cases x)
    case (JStr s)
    with that(2) have "s \<notin> fst ` set COLOR_DICT" by auto
    then have "map_of COLOR_DICT s = None" by (simp add: map_of_eq_None_iff)
    with JStr show ?thesis by (simp add: color_replace_def)
  qed (use that(1) in \<open>simp_all add: color_replace_def\<close>)
  have unhashable: "color_replace x = Inl TypeError" if "\<not> hashable x" for x
    using that by (cases x) (simp_all add: color_replace_def)
  from keys other unhashable show ?thesis by blast
qed

theorem color_replace_total_witness:
  "hashable (JStr ''red'') \<and> JStr ''red'' \<notin> JStr ` fst ` set COLOR_DICT \<and>
   color_replace (JStr ''red'') = Inr ''white'' \<and>
   \<not> hashable (JArr [JStr ''purple'']) \<and>
   color_replace (JArr [JStr ''purple'']) = Inl TypeError"
proof -
  have h: "hashable (JStr ''red'')" by simp
  have k: "JStr ''red'' \<notin> JStr ` fst ` set COLOR_DICT" by (simp add: COLOR_DICT_def image_iff)
  have u: "\<not> hashable (JArr [JStr ''purple''])" by simp
  from color_replace_total h k u show ?thesis by blast
qed

text \<open>
  C9 as stated fails: the translation is not total. A colour cell that holds a list (a
  flattened table keeps lists as cells) makes the lookup raise \<open>TypeError\<close> instead of
  giving white.
\<close>

theorem color_replace_list_cell: "color_replace (JArr []) = Inl TypeError"
  by (simp add: color_replace_def)

subsection \<open>The request client\<close>

lemma connect_paged:
  assumes "server e = Some s" "user e = Some u" "apikey e = Some a"
    "encodable (u @ '':'' @ a)"
    and "requests_get e = paged_server key R"
  shows "\<exists>req resp. jira_auth_get_connect e p (Some q) None sent
           = (sent @ [(req, Returned resp)], Inr (Response resp)) \<and>
         query req = Some q \<and> status_code resp = 200 \<and>
         body resp = Some (JObj [(key, JArr (map record_no
                            [startAt q ..< min (startAt q + maxResults q) R]))])"
  using assms by (simp add: jira_auth_get_connect_def paged_server_def Let_def)

text \<open>
  C3, as amended. With the three configuration values present, the credentials encodable
  in UTF-8 and the body absent or serialisable, a call of the request client raises
  nothing, whatever the path, the query parameters and the behaviour of the transport
  are. It makes exactly one request, to the server URL followed by the path, with the
  given parameters and the Basic authorisation header. What it returns is the response
  when the transport returned one with a status outside 400 to 599, and an error value
  otherwise: the exception the transport raised, or an \<open>HTTPError\<close> for a status from 400
  to 599.
\<close>

theorem jira_auth_get_connect_returns:
  assumes "server e = Some s" and "user e = Some u" and "apikey e = Some a"
    and "encodable (u @ '':'' @ a)"
    and "\<forall>x. body_arg \<noteq> Some (Inl x)"
  shows "\<exists>req r. jira_auth_get_connect e url_path param body_arg sent
            = (sent @ [(req, requests_get e req)], Inr r) \<and>
          url req = s @ url_path \<and> query req = param \<and>
          headers req = [(''Accept'', ''application/json''),
                         (''Content-Type'', ''application/json''),
                         (''Authorization'', ''Basic '' @ b64encode (u @ '':'' @ a))] \<and>
          (\<forall>err. requests_get e req = Raised err \<longrightarrow> r = ErrorValue err) \<and>
          (\<forall>resp. requests_get e req = Returned resp \<longrightarrow>
             r = (if 400 \<le> status_code resp \<and> status_code resp < 600
                  then ErrorValue HTTPError else Response resp))"
proof -
  from assms(5) have b: "(case body_arg of Some (Inl x) \<Rightarrow> A x | _ \<Rightarrow> B) = B" for A and B :: 'z
    by (cases body_arg) (auto split: sum.splits)
  show ?thesis
    using assms(1-4)
    by (auto simp: jira_auth_get_connect_def b Let_def split: http_result.splits)
qed

lemma demo_credentials: "encodable ''me@example.org:token''" "encodable ''me:token''"
  by code_simp+

theorem jira_auth_get_connect_returns_witness:
  "server (demo_env (status_server 401)) = Some ''https://jira.example.org'' \<and>
   user (demo_env (status_server 401)) = Some ''me@example.org'' \<and>
   apikey (demo_env (status_server 401)) = Some ''token'' \<and>
   encodable (''me@example.org'' @ '':'' @ ''token'') \<and>
   (\<exists>req. jira_auth_get_connect (demo_env (status_server 401))
               ''/rest/api/latest/search'' None None []
            = ([] @ [(req, Returned \<lparr>status_code = 401, body = None\<rparr>)],
               Inr (ErrorValue HTTPError)) \<and>
          url req = ''https://jira.example.org'' @ ''/rest/api/latest/search'' \<and>
          query req = None)"
proof -
  let ?e = "demo_env (status_server 401)"
  have h: "server ?e = Some ''https://jira.example.org''"
    "user ?e = Some ''me@example.org''"
    "apikey ?e = Some ''token''"
    by (simp_all add: demo_env_def)
  have c: "encodable (''me@example.org'' @ '':'' @ ''token'')"
    using demo_credentials(1) by simp
  have n: "\<forall>x. (None :: (py_exn + string) option) \<noteq> Some (Inl x)" by simp
  have g: "requests_get ?e req = Returned \<lparr>status_code = 401, body = None\<rparr>" for req
    by (simp add: demo_env_def status_server_def)
  from jira_auth_get_connect_returns[OF h c n, of "''/rest/api/latest/search''" None "[]"]
  obtain req r where
    "jira_auth_get_connect ?e ''/rest/api/latest/search'' None None []
       = ([] @ [(req, requests_get ?e req)], Inr r)"
    "url req = ''https://jira.example.org'' @ ''/rest/api/latest/search''"
    "query req = None"
    "\<forall>resp. requests_get ?e req = Returned resp \<longrightarrow>
       r = (if 400 \<le> status_code resp \<and> status_code resp < 600
            then ErrorValue HTTPError else Response resp)"
    by blast
  then have "jira_auth_get_connect ?e ''/rest/api/latest/search'' None None []
       = ([] @ [(req, Returned \<lparr>status_code = 401, body = None\<rparr>)],
          Inr (ErrorValue HTTPError)) \<and>
     url req = ''https://jira.example.org'' @ ''/rest/api/latest/search'' \<and>
     query req = None"
    by (simp add: g)
  with h c show ?thesis by blast
qed

text \<open>
  C3 as stated fails: with the server URL absent the call raises \<open>TypeError\<close>, and
  it does so before any request is made (the log stays empty), so no authentication
  failure is seen either.
\<close>

theorem jira_auth_get_connect_absent_server:
  "jira_auth_get_connect ((demo_env (status_server 200))\<lparr>server := None\<rparr>)
     ''/rest/api/latest/search'' None None [] = ([], Inl TypeError)"
  by (simp add: jira_auth_get_connect_def demo_env_def)

subsection \<open>Pagination\<close>

lemma read_block_paged:
  assumes "json_bound f"
    and "body resp = Some (JObj [(array_key f, JArr xs)])"
  shows "read_block f (Response resp) = Inr xs"
  using assms by (simp add: read_block_def subscript_def py_iter_def)

lemma pages_step:
  assumes "0 < N" and "k < R"
  shows "pages N R k = Suc (pages N R (k + N))"
proof (cases "k + N \<le> R")
  case True
  then have "R - k + N - 1 = (R - (k + N) + N - 1) + N" using assms by simp
  then show ?thesis by (simp add: pages_def assms)
next
  case False
  then have z: "R - (k + N) = 0" by simp
  have "N * 1 \<le> R - k + N - 1" and "R - k + N - 1 < N * Suc 1"
    using False assms by simp_all
  then have "(R - k + N - 1) div N = 1" by (rule div_nat_eqI)
  with z assms show ?thesis by (simp add: pages_def)
qed

lemma upt_split_page:
  "map g [k ..< min (k + N) R] @ map g [k + N ..< R] = map g [k ..< R]"
proof (cases "k + N \<le> R")
  case True
  then have "[k..<R] = [k..<k + N] @ [k + N..<R]"
    by (metis le_add1 upt_add_eq_append le_Suc_ex)
  with True show ?thesis by (simp add: min_def)
next
  case False
  then show ?thesis by (simp add: min_def)
qed

lemma map_upt_Suc_shift:
  "map g [0..<Suc m] = g 0 # map (\<lambda>i. g (Suc i)) [0..<m]"
  by (simp add: upt_conv_Cons map_Suc_upt[symmetric] del: upt_Suc)

text \<open>
  The loop against the server that holds \<open>R\<close> records, from any offset and with anything
  accumulated: it ends, it has appended the records from the offset on, and its requests
  are at the offsets \<open>k, k + N, ...\<close>, each answered with what is left, capped at \<open>N\<close>.
\<close>

lemma fetch_loop_paged:
  assumes cfg: "server e = Some s" "user e = Some u" "apikey e = Some a"
      "encodable (u @ '':'' @ a)"
    and srv: "requests_get e = paged_server (array_key f) R"
    and f: "json_bound f" "0 < block_size f"
  shows "\<exists>ex. fetch_loop e f acc k sent
            = Some (sent @ ex, Inr (acc @ map record_no [k..<R])) \<and>
          map offset_of ex
            = map (\<lambda>i. k + i * block_size f) [0..<pages (block_size f) R k] \<and>
          map (returned_count (array_key f)) ex
            = map (\<lambda>i. min (block_size f) (R - (k + i * block_size f)))
                [0..<pages (block_size f) R k]"
proof (induction "R - k" arbitrary: k acc sent rule: less_induct)
  case less
  let ?N = "block_size f"
  let ?q = "\<lparr>startAt = k, maxResults = ?N, extra = extra_params f\<rparr>"
  let ?block = "map record_no [k ..< min (k + ?N) R]"
  from connect_paged[OF cfg srv, of "path f" ?q sent]
  obtain req resp where c: "jira_auth_get_connect e (path f) (Some ?q) None sent
           = (sent @ [(req, Returned resp)], Inr (Response resp))"
     and q: "query req = Some ?q"
     and b: "body resp = Some (JObj [(array_key f, JArr ?block)])"
    by auto
  have rb: "read_block f (Response resp) = Inr ?block"
    using read_block_paged[OF f(1) b] .
  have off: "offset_of (req, Returned resp) = k" by (simp add: offset_of_def q)
  have cnt: "returned_count (array_key f) (req, Returned resp) = min ?N (R - k)"
    by (simp add: returned_count_def b)
  show ?case
  proof (cases "R \<le> k")
    case True
    then have "fetch_loop e f acc k sent = Some (sent @ [(req, Returned resp)], Inr acc)"
      by (subst fetch_loop.simps) (simp add: c rb)
    moreover have "pages ?N R k = 1" using True f(2) by (simp add: pages_def)
    ultimately show ?thesis using True off cnt by simp
  next
    case False
    then have "\<not> min (k + ?N) R \<le> k" using f(2) by simp
    then have step: "fetch_loop e f acc k sent
       = fetch_loop e f (acc @ ?block) (k + ?N) (sent @ [(req, Returned resp)])"
      by (subst fetch_loop.simps) (simp add: c rb)
    have "R - (k + ?N) < R - k" using False f(2) by simp
    from less[OF this, of "acc @ ?block" "sent @ [(req, Returned resp)]"]
    obtain ex where ih: "fetch_loop e f (acc @ ?block) (k + ?N) (sent @ [(req, Returned resp)])
        = Some ((sent @ [(req, Returned resp)]) @ ex,
                Inr ((acc @ ?block) @ map record_no [k + ?N..<R]))"
      and o: "map offset_of ex = map (\<lambda>i. k + ?N + i * ?N) [0..<pages ?N R (k + ?N)]"
      and n: "map (returned_count (array_key f)) ex
                = map (\<lambda>i. min ?N (R - (k + ?N + i * ?N))) [0..<pages ?N R (k + ?N)]"
      by blast
    have pg: "pages ?N R k = Suc (pages ?N R (k + ?N))"
      using pages_step[OF f(2)] False by simp
    show ?thesis
      apply (rule exI[of _ "(req, Returned resp) # ex"])
      apply (simp only: step ih pg map_upt_Suc_shift)
      using o n off cnt upt_split_page[of record_no k ?N R]
      by (simp add: add.assoc add.commute)
  qed
qed

lemma json_normalize_records:
  "\<exists>df. json_normalize (map record_no xs) = Inr df \<and> length (rows df) = length xs"
  by (simp add: json_normalize_def record_no_def Let_def)

lemma paginate_paged:
  assumes cfg: "server e = Some s" "user e = Some u" "apikey e = Some a"
      "encodable (u @ '':'' @ a)"
    and srv: "requests_get e = paged_server (array_key f) R"
    and f: "json_bound f" "0 < block_size f"
  shows "\<exists>sent df. paginate e f = Some (sent, Inr df) \<and> length (rows df) = R \<and>
          map offset_of sent = map (\<lambda>i. i * block_size f) [0..<pages (block_size f) R 0] \<and>
          map (returned_count (array_key f)) sent
            = map (\<lambda>i. min (block_size f) (R - i * block_size f))
                [0..<pages (block_size f) R 0]"
proof -
  from fetch_loop_paged[OF cfg srv f, of "[]" 0 "[]"]
  obtain ex where l: "fetch_loop e f [] 0 [] = Some (ex, Inr (map record_no [0..<R]))"
    and o: "map offset_of ex = map (\<lambda>i. i * block_size f) [0..<pages (block_size f) R 0]"
    and n: "map (returned_count (array_key f)) ex
            = map (\<lambda>i. min (block_size f) (R - i * block_size f))
                [0..<pages (block_size f) R 0]"
    by auto
  from json_normalize_records[of "[0..<R]"] obtain df
    where d: "json_normalize (map record_no [0..<R]) = Inr df" "length (rows df) = R"
    by auto
  show ?thesis using l o n d by (auto simp: paginate_def)
qed

lemma pages_0: "pages N R 0 = (R + N - 1) div N + 1"
  by (simp add: pages_def)

lemma last_page_empty:
  assumes "0 < (N::nat)"
  shows "min N (R - (R + N - 1) div N * N) = 0"
proof -
  from dividend_less_div_times[OF assms, of "R + N - 1"]
  have "R + N - 1 < N + (R + N - 1) div N * N" .
  with assms have "R \<le> (R + N - 1) div N * N" by simp
  then show ?thesis by simp
qed

lemma paginate_count:
  assumes cfg: "server e = Some s" "user e = Some u" "apikey e = Some a"
      "encodable (u @ '':'' @ a)"
    and srv: "requests_get e = paged_server (array_key f) R"
    and f: "json_bound f" "0 < block_size f"
  shows "\<exists>sent df. paginate e f = Some (sent, Inr df) \<and>
      length sent = (R + block_size f - 1) div block_size f + 1 \<and>
      length (rows df) = R \<and>
      returned_count (array_key f) (last sent) = 0"
proof -
  let ?N = "block_size f"
  let ?n = "(R + ?N - 1) div ?N"
  from paginate_paged[OF cfg srv f]
  obtain sent df where p: "paginate e f = Some (sent, Inr df)" "length (rows df) = R"
    and o: "map offset_of sent = map (\<lambda>i. i * ?N) [0..<pages ?N R 0]"
    and n: "map (returned_count (array_key f)) sent
            = map (\<lambda>i. min ?N (R - i * ?N)) [0..<pages ?N R 0]"
    by auto
  have len: "length sent = ?n + 1"
    using arg_cong[OF o, of length] by (simp add: pages_0)
  then have ne: "sent \<noteq> []" by auto
  have "returned_count (array_key f) (last sent)
          = last (map (returned_count (array_key f)) sent)"
    using ne by (simp add: last_map)
  also have "\<dots> = min ?N (R - ?n * ?N)"
    by (simp add: n pages_0)
  also have "\<dots> = 0"
    using last_page_empty[OF f(2)] .
  finally show ?thesis using p len by auto
qed

text \<open>
  C1, as amended. Against a server that holds \<open>R\<close> records and answers a request at
  offset \<open>k\<close> with \<open>min N (R - k)\<close> of them, and with a configuration under which
  requests are made (the three values present, the credentials encodable), a paginated
  fetch with page size \<open>N > 0\<close> makes exactly \<open>ceil(R/N) + 1\<close> requests (written \<open>(R + N - 1) div N + 1\<close>), returns a
  table of exactly \<open>R\<close> rows, and its last request comes back with no element. This holds
  for every fetcher that has \<open>json\<close> in scope, and so for \<open>jira_get_issues\<close>, whose page
  size is 100.
\<close>

theorem paginated_fetch_request_count:
  "(encodable (u @ '':'' @ a) \<and> 0 < block_size f \<and> json_bound f \<longrightarrow>
      (\<exists>sent df.
         paginate \<lparr>server = Some s, user = Some u, apikey = Some a,
                    requests_get = paged_server (array_key f) R, py_str = fmt\<rparr> f
           = Some (sent, Inr df) \<and>
         length sent = (R + block_size f - 1) div block_size f + 1 \<and>
         length (rows df) = R \<and>
         returned_count (array_key f) (last sent) = 0)) \<and>
   (encodable (u @ '':'' @ a) \<longrightarrow>
     (\<exists>sent df.
        jira_get_issues \<lparr>server = Some s, user = Some u, apikey = Some a,
                          requests_get = paged_server ''issues'' R, py_str = fmt\<rparr> jql
          = Some (sent, Inr df) \<and>
        length sent = (R + 99) div 100 + 1 \<and>
        length (rows df) = R \<and>
        returned_count ''issues'' (last sent) = 0))"
proof (intro conjI impI)
  assume "encodable (u @ '':'' @ a) \<and> 0 < block_size f \<and> json_bound f"
  then show "\<exists>sent df.
         paginate \<lparr>server = Some s, user = Some u, apikey = Some a,
                    requests_get = paged_server (array_key f) R, py_str = fmt\<rparr> f
           = Some (sent, Inr df) \<and>
         length sent = (R + block_size f - 1) div block_size f + 1 \<and>
         length (rows df) = R \<and>
         returned_count (array_key f) (last sent) = 0"
    by (intro paginate_count[where s = s and u = u and a = a]) simp_all
next
  assume enc: "encodable (u @ '':'' @ a)"
  define f where "f = \<lparr>path = ''/rest/api/latest/search'', array_key = ''issues'',
                extra_params = (if jql \<noteq> [] then [(''jql'', jql)] else []),
                block_size = 100, guarded = False, json_bound = True\<rparr>"
  let ?e = "\<lparr>server = Some s, user = Some u, apikey = Some a,
                        requests_get = paged_server ''issues'' R, py_str = fmt\<rparr>"
  have fs: "block_size f = 100" "json_bound f" "array_key f = ''issues''"
    by (simp_all add: f_def)
  from paginate_count[of ?e s u a f R] fs enc
  have "\<exists>sent df. paginate ?e f = Some (sent, Inr df) \<and>
      length sent = (R + 99) div 100 + 1 \<and> length (rows df) = R \<and>
      returned_count ''issues'' (last sent) = 0"
    by (simp add: add.commute)
  then show "\<exists>sent df. jira_get_issues ?e jql = Some (sent, Inr df) \<and>
      length sent = (R + 99) div 100 + 1 \<and> length (rows df) = R \<and>
      returned_count ''issues'' (last sent) = 0"
    unfolding jira_get_issues_def f_def .
qed

theorem paginated_fetch_request_count_witness:
  "encodable (''me'' @ '':'' @ ''token'') \<and>
   0 < block_size \<lparr>path = ''/rest/agile/1.0/board'', array_key = ''values'',
                    extra_params = [], block_size = 2, guarded = False,
                    json_bound = True\<rparr> \<and>
   json_bound \<lparr>path = ''/rest/agile/1.0/board'', array_key = ''values'',
                extra_params = [], block_size = 2, guarded = False,
                json_bound = True\<rparr> \<and>
   (\<exists>sent df.
      paginate \<lparr>server = Some ''https://jira.example.org'', user = Some ''me'',
                 apikey = Some ''token'', requests_get = paged_server ''values'' 5,
                 py_str = demo_str\<rparr>
        \<lparr>path = ''/rest/agile/1.0/board'', array_key = ''values'',
          extra_params = [], block_size = 2, guarded = False, json_bound = True\<rparr>
        = Some (sent, Inr df) \<and>
      length sent = 4 \<and> length (rows df) = 5 \<and>
      returned_count ''values'' (last sent) = 0)"
  using paginated_fetch_request_count[where
      f = "\<lparr>path = ''/rest/agile/1.0/board'', array_key = ''values'',
        extra_params = [], block_size = 2, guarded = False, json_bound = True\<rparr>"
      and u = "''me''" and a = "''token''" and s = "''https://jira.example.org''"
      and R = 5 and fmt = demo_str]
    demo_credentials(2)
  by simp

text \<open>
  C1 as stated fails whenever the page size does not divide the record count: for 50
  issues \<open>jira_get_issues\<close> makes two requests, and \<open>floor(50/100) + 1\<close> is one.
\<close>

theorem jira_get_issues_fifty_records:
  "requests_made (jira_get_issues (demo_env (paged_server ''issues'' 50)) []) = Some 2 \<and>
   (50::nat) div 100 + 1 = 1"
proof -
  let ?f = "\<lparr>path = ''/rest/api/latest/search'', array_key = ''issues'',
                extra_params = [], block_size = 100, guarded = False, json_bound = True\<rparr>"
  have enc: "encodable (''me@example.org'' @ '':'' @ ''token'')"
    using demo_credentials(1) by simp
  have "\<exists>sent df. paginate (demo_env (paged_server ''issues'' 50)) ?f = Some (sent, Inr df) \<and>
      length sent = (50 + block_size ?f - 1) div block_size ?f + 1 \<and>
      length (rows df) = 50 \<and>
      returned_count (array_key ?f) (last sent) = 0"
    by (rule paginate_count[OF _ _ _ enc]) (simp_all add: demo_env_def)
  then show ?thesis
    by (auto simp: jira_get_issues_def requests_made_def)
qed

lemma counts_exact_multiple:
  "map (\<lambda>i. min 100 (100 * m - i * 100)) [0..<pages 100 (100 * m) 0] = replicate m (100::nat) @ [0]"
proof -
  have p: "pages 100 (100 * m) 0 = m + 1"
    by (simp add: pages_def)
  show ?thesis
    unfolding p
    by (rule nth_equalityI) (auto simp: nth_append nth_replicate less_Suc_eq)
qed

lemma counts_short_page:
  assumes "r < 99"
  shows "map (\<lambda>i. min 100 (100 * m + Suc r - i * 100)) [0..<pages 100 (100 * m + Suc r) 0]
           = replicate m (100::nat) @ [Suc r, 0]"
proof -
  have "(100 * m + Suc r + 100 - 1) div 100 = m + 1"
    using assms by (intro div_nat_eqI) simp_all
  then have p: "pages 100 (100 * m + Suc r) 0 = m + 2"
    by (simp add: pages_def)
  show ?thesis
    unfolding p
    apply (rule nth_equalityI)
     apply simp
    using assms
    apply (auto simp: nth_append nth_replicate less_Suc_eq nth_Cons')
    done
qed

lemma fetch_loop_continues:
  assumes "jira_auth_get_connect e (path f)
             (Some \<lparr>startAt = k, maxResults = block_size f, extra = extra_params f\<rparr>) None sent
           = (sent', Inr rsp)"
    and "read_block f rsp = Inr block" and "block \<noteq> []"
  shows "fetch_loop e f acc k sent = fetch_loop e f (acc @ block) (k + block_size f) sent'"
proof -
  from assms(2) have "rsp \<noteq> ErrorValue HTTPError"
    by (auto simp: read_block_def split: if_splits)
  with assms show ?thesis
    by (subst fetch_loop.simps) simp
qed

text \<open>
  C8. When the record count is an exact multiple of the page size (100 for
  \<open>jira_get_issues\<close>), the fetcher, under a configuration with which requests are made, does not stop after the last full page: after \<open>m\<close>
  full pages it makes one more request, at offset \<open>100 * m\<close>, which comes back empty, and
  only then ends. A page with fewer than 100 but more than zero elements does not end the
  loop either: it is followed by a further request, which comes back empty. The last
  part holds for every fetcher against every server: a block that is not empty always
  leads to the next iteration.
\<close>

theorem empty_page_ends_the_loop:
  "(encodable (u @ '':'' @ a) \<longrightarrow>
     (\<exists>sent df.
        jira_get_issues \<lparr>server = Some s, user = Some u, apikey = Some a,
                          requests_get = paged_server ''issues'' (100 * m), py_str = fmt\<rparr> jql
          = Some (sent, Inr df) \<and>
        map offset_of sent = map (\<lambda>i. i * 100) [0..<m + 1] \<and>
        map (returned_count ''issues'') sent = replicate m 100 @ [0] \<and>
        length (rows df) = 100 * m)) \<and>
   (encodable (u @ '':'' @ a) \<and> r < 99 \<longrightarrow>
     (\<exists>sent df.
        jira_get_issues \<lparr>server = Some s, user = Some u, apikey = Some a,
                          requests_get = paged_server ''issues'' (100 * m + Suc r),
                          py_str = fmt\<rparr> jql
          = Some (sent, Inr df) \<and>
        map (returned_count ''issues'') sent = replicate m 100 @ [Suc r, 0] \<and>
        length (rows df) = 100 * m + Suc r)) \<and>
   (jira_auth_get_connect e (path f)
        (Some \<lparr>startAt = k, maxResults = block_size f, extra = extra_params f\<rparr>) None sent0
      = (sent1, Inr rsp) \<and>
    read_block f rsp = Inr block \<and> block \<noteq> [] \<longrightarrow>
      fetch_loop e f acc k sent0 = fetch_loop e f (acc @ block) (k + block_size f) sent1)"
proof (intro conjI impI)
  define g where "g = \<lparr>path = ''/rest/api/latest/search'', array_key = ''issues'',
                extra_params = (if jql \<noteq> [] then [(''jql'', jql)] else []),
                block_size = 100, guarded = False, json_bound = True\<rparr>"
  have gs: "block_size g = 100" "json_bound g" "array_key g = ''issues''"
    by (simp_all add: g_def)
  have run: "\<exists>sent df. jira_get_issues \<lparr>server = Some s, user = Some u, apikey = Some a,
                  requests_get = paged_server ''issues'' R, py_str = fmt\<rparr> jql
        = Some (sent, Inr df) \<and> length (rows df) = R \<and>
      map offset_of sent = map (\<lambda>i. i * 100) [0..<pages 100 R 0] \<and>
      map (returned_count ''issues'') sent = map (\<lambda>i. min 100 (R - i * 100)) [0..<pages 100 R 0]"
    if "encodable (u @ '':'' @ a)" for R
    using paginate_paged[of "\<lparr>server = Some s, user = Some u, apikey = Some a,
                  requests_get = paged_server ''issues'' R, py_str = fmt\<rparr>" s u a g R] gs that
    unfolding jira_get_issues_def g_def by simp
  show "\<exists>sent df.
      jira_get_issues \<lparr>server = Some s, user = Some u, apikey = Some a,
                        requests_get = paged_server ''issues'' (100 * m), py_str = fmt\<rparr> jql
        = Some (sent, Inr df) \<and>
      map offset_of sent = map (\<lambda>i. i * 100) [0..<m + 1] \<and>
      map (returned_count ''issues'') sent = replicate m 100 @ [0] \<and>
      length (rows df) = 100 * m" if "encodable (u @ '':'' @ a)"
    using run[OF that, of "100 * m"] counts_exact_multiple[of m]
    by (auto simp: pages_def)
  show "\<exists>sent df.
        jira_get_issues \<lparr>server = Some s, user = Some u, apikey = Some a,
                          requests_get = paged_server ''issues'' (100 * m + Suc r),
                          py_str = fmt\<rparr> jql
          = Some (sent, Inr df) \<and>
        map (returned_count ''issues'') sent = replicate m 100 @ [Suc r, 0] \<and>
        length (rows df) = 100 * m + Suc r" if "encodable (u @ '':'' @ a) \<and> r < 99"
  proof -
    from that have enc: "encodable (u @ '':'' @ a)" and short: "r < 99" by simp_all
    show ?thesis
      using run[OF enc, of "100 * m + Suc r"] counts_short_page[OF short, of m]
      by auto
  qed
  show "fetch_loop e f acc k sent0 = fetch_loop e f (acc @ block) (k + block_size f) sent1"
    if "jira_auth_get_connect e (path f)
        (Some \<lparr>startAt = k, maxResults = block_size f, extra = extra_params f\<rparr>) None sent0
      = (sent1, Inr rsp) \<and> read_block f rsp = Inr block \<and> block \<noteq> []"
    using that by (intro fetch_loop_continues[where rsp = rsp]) simp_all
qed

theorem empty_page_ends_the_loop_witness:
  "encodable (''me@example.org'' @ '':'' @ ''token'') \<and> (49::nat) < 99 \<and>
   (\<exists>sent df.
      jira_get_issues (demo_env (paged_server ''issues'' 150)) [] = Some (sent, Inr df) \<and>
      map (returned_count ''issues'') sent = [100, 50, 0] \<and>
      length (rows df) = 150) \<and>
   jira_auth_get_connect (demo_env (paged_server ''issues'' 1)) ''/rest/api/latest/search''
        (Some \<lparr>startAt = 0, maxResults = 100, extra = []\<rparr>) None []
      = (fst (jira_auth_get_connect (demo_env (paged_server ''issues'' 1))
               ''/rest/api/latest/search''
               (Some \<lparr>startAt = 0, maxResults = 100, extra = []\<rparr>) None []),
         Inr (Response \<lparr>status_code = 200,
                         body = Some (JObj [(''issues'', JArr [record_no 0])])\<rparr>)) \<and>
   read_block \<lparr>path = ''/rest/api/latest/search'', array_key = ''issues'',
                extra_params = [], block_size = 100, guarded = False, json_bound = True\<rparr>
      (Response \<lparr>status_code = 200,
                  body = Some (JObj [(''issues'', JArr [record_no 0])])\<rparr>)
      = Inr [record_no 0] \<and>
   [record_no 0] \<noteq> [] \<and>
   fetch_loop (demo_env (paged_server ''issues'' 1))
      \<lparr>path = ''/rest/api/latest/search'', array_key = ''issues'',
        extra_params = [], block_size = 100, guarded = False, json_bound = True\<rparr> [] 0 []
     = fetch_loop (demo_env (paged_server ''issues'' 1))
        \<lparr>path = ''/rest/api/latest/search'', array_key = ''issues'',
          extra_params = [], block_size = 100, guarded = False, json_bound = True\<rparr>
        [record_no 0] 100
        (fst (jira_auth_get_connect (demo_env (paged_server ''issues'' 1))
               ''/rest/api/latest/search''
               (Some \<lparr>startAt = 0, maxResults = 100, extra = []\<rparr>) None []))"
proof -
  let ?e = "demo_env (paged_server ''issues'' 1)"
  let ?f = "\<lparr>path = ''/rest/api/latest/search'', array_key = ''issues'',
        extra_params = [], block_size = 100, guarded = False, json_bound = True\<rparr>"
  let ?rsp = "Response \<lparr>status_code = 200,
                  body = Some (JObj [(''issues'', JArr [record_no 0])])\<rparr>"
  let ?c = "jira_auth_get_connect ?e ''/rest/api/latest/search''
               (Some \<lparr>startAt = 0, maxResults = 100, extra = []\<rparr>) None []"
  have h0: "encodable (''me@example.org'' @ '':'' @ ''token'')"
    using demo_credentials(1) by simp
  have h1: "(49::nat) < 99" by simp
  have h2: "?c = (fst ?c, Inr ?rsp)"
    by (simp add: jira_auth_get_connect_def demo_env_def paged_server_def Let_def
        demo_credentials)
  have h3: "read_block ?f ?rsp = Inr [record_no 0]"
    by (simp add: read_block_def subscript_def py_iter_def)
  have h4: "[record_no 0] \<noteq> []" by simp
  note t = empty_page_ends_the_loop[of "''me@example.org''" "''token''"
      "''https://jira.example.org''" 1 demo_str "[]" 49 ?e ?f 0 "[]" "fst ?c" ?rsp
      "[record_no 0]" "[]"]
  from t h0 h1 have a: "\<exists>sent df.
      jira_get_issues (demo_env (paged_server ''issues'' 150)) [] = Some (sent, Inr df) \<and>
      map (returned_count ''issues'') sent = [100, 50, 0] \<and>
      length (rows df) = 150"
    by (simp add: demo_env_def)
  from t h2 h3 h4 have b: "fetch_loop ?e ?f [] 0 [] = fetch_loop ?e ?f [record_no 0] 100 (fst ?c)"
    by simp
  from h0 h1 a h2 h3 h4 b show ?thesis by blast
qed

text \<open>
  \<open>jira_get_backlog_issues\<close> does not get as far as reading a page: the response of its
  first request is not an \<open>HTTPError\<close>, so \<open>json.loads\<close> is evaluated, and \<open>json\<close> is
  not bound.
\<close>

lemma backlog_fetch_name_error:
  "outcome (jira_get_backlog_issues (demo_env (paged_server ''issues'' R)) (JNum 7))
     = Some (Inl NameError)"
  by (simp add: outcome_def jira_get_backlog_issues_def paginate_def fetch_loop.simps
      jira_auth_get_connect_def demo_env_def paged_server_def read_block_def Let_def
      demo_credentials)

text \<open>
  C2. The claim fails on the code. When the first request is answered with status 401, the
  request client returns the \<open>HTTPError\<close> as a value; \<open>jira_get_issues\<close>, which does not look
  at the type of what it got, reads \<open>.text\<close> of it and raises \<open>AttributeError\<close>, whereas
  \<open>jira_get_sprints\<close> leaves its loop and returns the (empty) table. The guard of
  \<open>jira_get_sprints\<close> compares with \<open>HTTPError\<close> only: on a transport error it raises
  \<open>AttributeError\<close> too.
\<close>

theorem fetchers_on_error_values:
  "outcome (jira_get_issues (demo_env (status_server 401)) []) = Some (Inl AttributeError) \<and>
   outcome (jira_get_sprints (demo_env (status_server 401)) (JNum 7))
     = Some (Inr \<lparr>columns = [], rows = []\<rparr>) \<and>
   outcome (jira_get_sprints (demo_env (raising_server ConnectionError)) (JNum 7))
     = Some (Inl AttributeError)"
  by (simp add: outcome_def jira_get_issues_def jira_get_sprints_def paginate_def
      fetch_loop.simps jira_auth_get_connect_def demo_env_def status_server_def
      raising_server_def read_block_def json_normalize_def first_occurrences_def Let_def
      demo_credentials)

subsection \<open>Projection and renaming\<close>

lemma whitelist_keys: "RELEVANT_FIELDS = map fst COLUMN_NAME_DICT"
  by (simp add: RELEVANT_FIELDS_def COLUMN_NAME_DICT_def)

lemma whitelist_shape:
  "\<forall>c \<in> set RELEVANT_FIELDS. c = ''id'' \<or> c = ''key'' \<or> take 7 c = ''fields.''"
  by code_simp

lemma short_names_shape:
  "\<forall>v \<in> set (map snd COLUMN_NAME_DICT). v \<noteq> ''id'' \<and> v \<noteq> ''key'' \<and> take 7 v \<noteq> ''fields.''"
  by code_simp

lemma resolution_sources:
  "filter (\<lambda>kv. snd kv = ''resolution'') COLUMN_NAME_DICT
     = [(''fields.resolution'', ''resolution''), (''fields.resolution.name'', ''resolution'')]"
  by code_simp

lemma positions_snoc:
  "positions l (cs @ [x]) = positions l cs @ (if x = l then [length cs] else [])"
proof -
  have "filter (\<lambda>i. (cs @ [x]) ! i = l) [0..<length cs] = filter (\<lambda>i. cs ! i = l) [0..<length cs]"
    by (intro filter_cong) (auto simp: nth_append)
  then show ?thesis by (simp add: positions_def)
qed

lemma positions_absent: "l \<notin> set cs \<Longrightarrow> positions l cs = []"
  by (auto simp: positions_def filter_empty_conv)

lemma positions_valid: "i \<in> set (positions l cs) \<Longrightarrow> i < length cs \<and> cs ! i = l"
  by (auto simp: positions_def)

lemma label_positions_distinct:
  "distinct cs \<Longrightarrow>
     concat (map (\<lambda>l. positions l cs) (filter P cs)) = filter (\<lambda>i. P (cs ! i)) [0..<length cs]"
proof (induction cs rule: rev_induct)
  case Nil
  then show ?case by (simp add: positions_def)
next
  case (snoc x cs)
  then have d: "distinct cs" and x: "x \<notin> set cs" by simp_all
  have a: "map (\<lambda>l. positions l (cs @ [x])) (filter P cs) = map (\<lambda>l. positions l cs) (filter P cs)"
    using x by (intro map_cong) (auto simp: positions_snoc)
  have b: "filter (\<lambda>i. P ((cs @ [x]) ! i)) [0..<length cs] = filter (\<lambda>i. P (cs ! i)) [0..<length cs]"
    by (intro filter_cong) (auto simp: nth_append)
  have c: "positions x (cs @ [x]) = [length cs]"
    using x by (simp add: positions_snoc positions_absent)
  have "concat (map (\<lambda>l. positions l (cs @ [x])) (filter P (cs @ [x])))
      = concat (map (\<lambda>l. positions l cs) (filter P cs)) @ (if P x then [length cs] else [])"
    by (simp add: a c)
  also have "\<dots> = filter (\<lambda>i. P (cs ! i)) [0..<length cs] @ (if P x then [length cs] else [])"
    by (simp add: snoc.IH[OF d])
  also have "\<dots> = filter (\<lambda>i. P ((cs @ [x]) ! i)) [0..<length (cs @ [x])]"
    by (simp add: b)
  finally show ?case .
qed

lemma map_nth_filter:
  "map ((!) xs) (filter (\<lambda>i. Q (xs ! i)) [0..<length xs]) = filter Q xs"
proof (induction xs rule: rev_induct)
  case Nil
  then show ?case by simp
next
  case (snoc x xs)
  have a: "filter (\<lambda>i. Q ((xs @ [x]) ! i)) [0..<length xs] = filter (\<lambda>i. Q (xs ! i)) [0..<length xs]"
    by (intro filter_cong) (auto simp: nth_append)
  have b: "map ((!) (xs @ [x])) (filter (\<lambda>i. Q (xs ! i)) [0..<length xs])
         = map ((!) xs) (filter (\<lambda>i. Q (xs ! i)) [0..<length xs])"
    by (intro map_cong) (auto simp: nth_append)
  show ?case using snoc.IH by (simp add: a b)
qed

lemma map_cell_upt: "length r = n \<Longrightarrow> map (cell r) [0..<n] = r"
  by (auto simp: cell_def intro: nth_equalityI)

lemma select_relevant_distinct:
  assumes "distinct (columns df)"
  shows "select_relevant df
    = pick (filter (\<lambda>i. columns df ! i \<in> set RELEVANT_FIELDS) [0..<length (columns df)]) df"
  using label_positions_distinct[OF assms, of "\<lambda>c. c \<in> set RELEVANT_FIELDS"]
  by (simp add: select_relevant_def label_positions_def)

lemma columns_pick_filter:
  "columns (pick (filter (\<lambda>i. Q (columns df ! i)) [0..<length (columns df)]) df)
     = filter Q (columns df)"
  using map_nth_filter[of "columns df" Q] by (simp add: pick_def)

lemma select_relevant_idem:
  assumes "distinct (columns df)"
  shows "select_relevant (select_relevant df) = select_relevant df"
proof -
  let ?W = "\<lambda>c. c \<in> set RELEVANT_FIELDS"
  let ?idx = "filter (\<lambda>i. ?W (columns df ! i)) [0..<length (columns df)]"
  let ?d = "select_relevant df"
  have d: "?d = pick ?idx df" by (rule select_relevant_distinct[OF assms])
  have cols: "columns ?d = filter ?W (columns df)"
    unfolding d by (rule columns_pick_filter)
  then have dist: "distinct (columns ?d)" using assms by simp
  have len: "\<forall>r \<in> set (rows ?d). length r = length (columns ?d)"
    unfolding d by (auto simp: pick_def)
  have "\<forall>c \<in> set (columns ?d). ?W c" by (simp add: cols)
  then have "\<forall>i < length (columns ?d). ?W (columns ?d ! i)" by simp
  then have all: "filter (\<lambda>i. ?W (columns ?d ! i)) [0..<length (columns ?d)] = [0..<length (columns ?d)]"
    by (simp add: filter_id_conv)
  have "select_relevant ?d = pick [0..<length (columns ?d)] ?d"
    using select_relevant_distinct[OF dist] all by simp
  also have "\<dots> = ?d"
  proof -
    have "map (\<lambda>i. columns ?d ! i) [0..<length (columns ?d)] = columns ?d"
      by (rule map_nth)
    moreover have "map (\<lambda>r. map (cell r) [0..<length (columns ?d)]) (rows ?d) = rows ?d"
      using len by (simp add: map_idI map_cell_upt)
    ultimately show ?thesis by (simp add: pick_def)
  qed
  finally show ?thesis .
qed

lemma select_relevant_columns: "set (columns (select_relevant df)) \<subseteq> set RELEVANT_FIELDS"
  by (auto simp: select_relevant_def label_positions_def pick_def dest!: positions_valid)

lemma new_name_in_values:
  assumes "c \<in> set RELEVANT_FIELDS"
  shows "(c, new_name COLUMN_NAME_DICT c) \<in> set COLUMN_NAME_DICT"
proof -
  from assms have "c \<in> fst ` set COLUMN_NAME_DICT" by (simp add: whitelist_keys)
  then obtain v where "map_of COLUMN_NAME_DICT c = Some v"
    by (meson weak_map_of_SomeI imageE prod.collapse map_of_eq_None_iff not_Some_eq)
  then show ?thesis by (simp add: new_name_def map_of_SomeD)
qed

lemma renamed_outside_whitelist:
  assumes "c \<in> set RELEVANT_FIELDS"
  shows "new_name COLUMN_NAME_DICT c \<notin> set RELEVANT_FIELDS"
proof -
  let ?v = "new_name COLUMN_NAME_DICT c"
  from new_name_in_values[OF assms] have "?v \<in> set (map snd COLUMN_NAME_DICT)" by force
  with short_names_shape have "?v \<noteq> ''id'' \<and> ?v \<noteq> ''key'' \<and> take 7 ?v \<noteq> ''fields.''" by blast
  with whitelist_shape show ?thesis by blast
qed

lemma project_rename_twice:
  "project_rename (project_rename df) = \<lparr>columns = [], rows = map (\<lambda>r. []) (rows df)\<rparr>"
proof -
  let ?p = "project_rename df"
  have "\<forall>c \<in> set (columns ?p). c \<notin> set RELEVANT_FIELDS"
    using select_relevant_columns[of df] renamed_outside_whitelist
    by (auto simp: project_rename_def rename_columns_def)
  then have "filter (\<lambda>c. c \<in> set RELEVANT_FIELDS) (columns ?p) = []"
    by (simp add: filter_empty_conv)
  then have "select_relevant ?p = \<lparr>columns = [], rows = map (\<lambda>r. []) (rows ?p)\<rparr>"
    by (simp add: select_relevant_def label_positions_def pick_def)
  moreover have "map (\<lambda>r. []) (rows ?p) = map (\<lambda>r. []) (rows df)"
    by (simp add: project_rename_def rename_columns_def select_relevant_def pick_def comp_def)
  ultimately show ?thesis
    by (simp add: project_rename_def[of "project_rename df"] rename_columns_def)
qed

text \<open>
  C6, as amended. Keeping the whitelisted columns is idempotent on a table whose labels
  are distinct (which \<open>json_normalize\<close> yields): a second selection changes nothing. The
  operation of the notebook, selection followed by renaming, is not idempotent: no name it
  gives is in the whitelist, so applied to its own output it drops every column and
  leaves the rows empty.
\<close>

theorem projection_idempotence:
  "(distinct (columns df) \<longrightarrow> select_relevant (select_relevant df) = select_relevant df) \<and>
   project_rename (project_rename df) = \<lparr>columns = [], rows = map (\<lambda>r. []) (rows df)\<rparr>"
  using select_relevant_idem project_rename_twice by blast

theorem projection_idempotence_witness:
  "distinct (columns \<lparr>columns = [''id'', ''self''], rows = [[JStr ''10001'', JStr ''u'']]\<rparr>) \<and>
   select_relevant (select_relevant \<lparr>columns = [''id'', ''self''], rows = [[JStr ''10001'', JStr ''u'']]\<rparr>)
     = select_relevant \<lparr>columns = [''id'', ''self''], rows = [[JStr ''10001'', JStr ''u'']]\<rparr> \<and>
   project_rename (project_rename \<lparr>columns = [''id'', ''self''], rows = [[JStr ''10001'', JStr ''u'']]\<rparr>)
     = \<lparr>columns = [], rows = [[]]\<rparr>"
  using projection_idempotence[of "\<lparr>columns = [''id'', ''self''], rows = [[JStr ''10001'', JStr ''u'']]\<rparr>"]
  by simp

text \<open>
  C6 as stated fails on a table with the single column \<open>id\<close>: the operation renames it
  to \<open>issue_id\<close>, and applied once more it returns a table without columns.
\<close>

theorem project_rename_not_idempotent:
  "project_rename \<lparr>columns = [''id''], rows = [[JStr ''10001'']]\<rparr>
     = \<lparr>columns = [''issue_id''], rows = [[JStr ''10001'']]\<rparr> \<and>
   project_rename (project_rename \<lparr>columns = [''id''], rows = [[JStr ''10001'']]\<rparr>)
     = \<lparr>columns = [], rows = [[]]\<rparr> \<and>
   project_rename (project_rename \<lparr>columns = [''id''], rows = [[JStr ''10001'']]\<rparr>)
     \<noteq> project_rename \<lparr>columns = [''id''], rows = [[JStr ''10001'']]\<rparr>"
proof -
  have a: "project_rename \<lparr>columns = [''id''], rows = [[JStr ''10001'']]\<rparr>
     = \<lparr>columns = [''issue_id''], rows = [[JStr ''10001'']]\<rparr>"
    by code_simp
  have b: "project_rename (project_rename \<lparr>columns = [''id''], rows = [[JStr ''10001'']]\<rparr>)
     = \<lparr>columns = [], rows = [[]]\<rparr>"
    by (simp add: project_rename_twice)
  show ?thesis unfolding b unfolding a by simp
qed

lemma renamed_resolution:
  assumes "c \<in> set RELEVANT_FIELDS"
  shows "(new_name COLUMN_NAME_DICT c = ''resolution'')
      = (c = ''fields.resolution'' \<or> c = ''fields.resolution.name'')"
proof
  assume "new_name COLUMN_NAME_DICT c = ''resolution''"
  with new_name_in_values[OF assms]
  have "(c, ''resolution'') \<in> set (filter (\<lambda>kv. snd kv = ''resolution'') COLUMN_NAME_DICT)"
    by simp
  then show "c = ''fields.resolution'' \<or> c = ''fields.resolution.name''"
    unfolding resolution_sources by simp
next
  assume "c = ''fields.resolution'' \<or> c = ''fields.resolution.name''"
  moreover have "new_name COLUMN_NAME_DICT ''fields.resolution'' = ''resolution''"
    "new_name COLUMN_NAME_DICT ''fields.resolution.name'' = ''resolution''"
    by code_simp+
  ultimately show "new_name COLUMN_NAME_DICT c = ''resolution''" by auto
qed

lemma resolution_in_whitelist:
  "''fields.resolution'' \<in> set RELEVANT_FIELDS" "''fields.resolution.name'' \<in> set RELEVANT_FIELDS"
  by code_simp+

lemma cell_map: "j < length idx \<Longrightarrow> cell (map (cell r) idx) j = cell r (idx ! j)"
  by (simp add: cell_def)

lemma two_in_distinct:
  assumes "distinct cs" "a \<in> set cs" "b \<in> set cs" "a \<noteq> b"
  shows "length (filter (\<lambda>c. c = a \<or> c = b) cs) = 2"
proof -
  let ?F = "filter (\<lambda>c. c = a \<or> c = b) cs"
  have "distinct ?F" using assms(1) by simp
  then have "card (set ?F) = length ?F" by (rule distinct_card)
  moreover have "set ?F = {a, b}" using assms by auto
  ultimately show ?thesis using assms(4) by simp
qed

text \<open>
  C7, as amended. When \<open>fields.resolution\<close> and \<open>fields.resolution.name\<close> are both
  columns of the flattened table, both are kept and both are renamed to \<open>resolution\<close>:
  the output has exactly two columns with that label, and they hold the values of the
  two source columns, unchanged, in the order in which the source columns stand. No
  mapping wins over the other.
\<close>

theorem resolution_columns_both_kept:
  assumes "distinct (columns df)"
    and "''fields.resolution'' \<in> set (columns df)"
    and "''fields.resolution.name'' \<in> set (columns df)"
  shows "count_list (columns (project_rename df)) ''resolution'' = 2 \<and>
     map (column_at (project_rename df)) (positions ''resolution'' (columns (project_rename df)))
       = map (column_at df)
           (filter (\<lambda>i. columns df ! i = ''fields.resolution'' \<or>
                        columns df ! i = ''fields.resolution.name'')
              [0..<length (columns df)])"
proof -
  let ?cs = "columns df"
  let ?W = "\<lambda>c. c \<in> set RELEVANT_FIELDS"
  let ?R = "\<lambda>c. c = ''fields.resolution'' \<or> c = ''fields.resolution.name''"
  let ?nn = "new_name COLUMN_NAME_DICT"
  let ?idx = "filter (\<lambda>i. ?W (?cs ! i)) [0..<length ?cs]"
  let ?cs' = "filter ?W ?cs"
  let ?p = "project_rename df"
  have RW: "?R c \<Longrightarrow> ?W c" for c using resolution_in_whitelist by auto
  have sel: "select_relevant df = pick ?idx df"
    by (rule select_relevant_distinct[OF assms(1)])
  have cols: "columns ?p = map ?nn ?cs'"
    using columns_pick_filter[of ?W df]
    by (simp add: project_rename_def rename_columns_def sel)
  have rws: "rows ?p = map (\<lambda>r. map (cell r) ?idx) (rows df)"
    by (simp add: project_rename_def rename_columns_def sel pick_def)
  have idx_cs': "map ((!) ?cs) ?idx = ?cs'" by (rule map_nth_filter)
  then have len: "length ?idx = length ?cs'" by (metis length_map)
  have nth_cs': "?cs' ! j = ?cs ! (?idx ! j)" if "j < length ?idx" for j
    using that idx_cs' by (metis nth_map)
  have nn: "(?nn c = ''resolution'') = ?R c" if "c \<in> set ?cs'" for c
    using that renamed_resolution by simp
  have "count_list (columns ?p) ''resolution'' = length (filter (\<lambda>c. ?nn c = ''resolution'') ?cs')"
    by (simp add: cols count_list_eq_length_filter filter_map comp_def eq_commute)
  also have "filter (\<lambda>c. ?nn c = ''resolution'') ?cs' = filter ?R ?cs'"
    by (intro filter_cong) (simp_all add: nn)
  also have "\<dots> = filter ?R ?cs"
    using RW by (auto intro: filter_cong)
  also have "length \<dots> = 2"
    using two_in_distinct[OF assms] by simp
  finally have count: "count_list (columns ?p) ''resolution'' = 2" .
  have at: "(?nn (?cs' ! j) = ''resolution'') = ?R (?cs ! (?idx ! j))" if "j < length ?idx" for j
  proof -
    from that have "?cs' ! j \<in> set ?cs'" using len by (metis nth_mem)
    from nn[OF this] nth_cs'[OF that] that len show ?thesis by simp
  qed
  have pos: "positions ''resolution'' (columns ?p) = filter (\<lambda>j. ?R (?cs ! (?idx ! j))) [0..<length ?idx]"
    unfolding positions_def cols
    by (intro filter_cong) (simp_all add: len at)
  have "map (column_at ?p) (positions ''resolution'' (columns ?p))
      = map (\<lambda>j. column_at df (?idx ! j)) (positions ''resolution'' (columns ?p))"
    unfolding pos
    by (intro map_cong) (auto simp: column_at_def rws cell_map)
  also have "\<dots> = map (column_at df) (map ((!) ?idx) (filter (\<lambda>j. ?R (?cs ! (?idx ! j))) [0..<length ?idx]))"
    by (simp add: pos comp_def)
  also have "map ((!) ?idx) (filter (\<lambda>j. ?R (?cs ! (?idx ! j))) [0..<length ?idx])
      = filter (\<lambda>i. ?R (?cs ! i)) ?idx"
    by (rule map_nth_filter[of ?idx "\<lambda>i. ?R (?cs ! i)"])
  also have "\<dots> = filter (\<lambda>i. ?R (?cs ! i)) [0..<length ?cs]"
    using RW by (auto intro: filter_cong)
  finally show ?thesis using count by simp
qed

theorem resolution_columns_both_kept_witness:
  "distinct (columns \<lparr>columns = [''id'', ''fields.resolution'', ''fields.resolution.name''],
                      rows = [[JStr ''1'', JNull, JStr ''Done'']]\<rparr>) \<and>
   ''fields.resolution'' \<in> set (columns \<lparr>columns = [''id'', ''fields.resolution'', ''fields.resolution.name''],
                      rows = [[JStr ''1'', JNull, JStr ''Done'']]\<rparr>) \<and>
   ''fields.resolution.name'' \<in> set (columns \<lparr>columns = [''id'', ''fields.resolution'', ''fields.resolution.name''],
                      rows = [[JStr ''1'', JNull, JStr ''Done'']]\<rparr>) \<and>
   count_list (columns (project_rename \<lparr>columns = [''id'', ''fields.resolution'', ''fields.resolution.name''],
                      rows = [[JStr ''1'', JNull, JStr ''Done'']]\<rparr>)) ''resolution'' = 2"
proof -
  let ?df = "\<lparr>columns = [''id'', ''fields.resolution'', ''fields.resolution.name''],
                      rows = [[JStr ''1'', JNull, JStr ''Done'']]\<rparr>"
  have h: "distinct (columns ?df)" "''fields.resolution'' \<in> set (columns ?df)"
    "''fields.resolution.name'' \<in> set (columns ?df)"
    by simp_all
  from resolution_columns_both_kept[OF h] h show ?thesis by blast
qed

text \<open>
  C7 as stated fails: from the two source columns the operation makes two columns called
  \<open>resolution\<close>, not one.
\<close>

theorem two_resolution_columns:
  "project_rename \<lparr>columns = [''fields.resolution'', ''fields.resolution.name''],
                   rows = [[JNull, JStr ''Done'']]\<rparr>
     = \<lparr>columns = [''resolution'', ''resolution''], rows = [[JNull, JStr ''Done'']]\<rparr> \<and>
   count_list [''resolution'', ''resolution''] ''resolution'' \<noteq> 1"
  by code_simp

subsection \<open>Epic backfill\<close>

lemma positions_append:
  "positions l (xs @ ys) = positions l xs @ map (\<lambda>i. i + length xs) (positions l ys)"
proof (induction ys rule: rev_induct)
  case Nil
  then show ?case by (simp add: positions_def)
next
  case (snoc y ys)
  have "positions l (xs @ ys @ [y]) = positions l ((xs @ ys) @ [y])" by simp
  also have "\<dots> = positions l (xs @ ys) @ (if y = l then [length (xs @ ys)] else [])"
    by (rule positions_snoc)
  finally show ?case
    by (simp add: snoc.IH positions_snoc add.commute)
qed

lemma positions_map:
  assumes "\<And>c. c \<in> set cs \<Longrightarrow> (f c = l) = (c = k)"
  shows "positions l (map f cs) = positions k cs"
proof -
  have "(map f cs ! i = l) = (cs ! i = k)" if "i < length cs" for i
    using that assms[of "cs ! i"] by simp
  then show ?thesis
    unfolding positions_def by (intro filter_cong) simp_all
qed

lemma positions_map_none:
  assumes "\<And>c. c \<in> set cs \<Longrightarrow> f c \<noteq> l"
  shows "positions l (map f cs) = []"
  unfolding positions_def using assms by (auto simp: filter_empty_conv)

lemma find_column_Some:
  "positions l (columns df) = p # ps \<Longrightarrow> find_column l df = Some p"
  by (simp add: find_column_def)

lemma positions_mem: "positions l cs = p # ps \<Longrightarrow> p < length cs \<and> cs ! p = l \<and> l \<in> set cs"
  using positions_valid[of p l cs] by (metis list.set_intros(1) nth_mem)

lemma sequence_Inr: "sequence (map (\<lambda>x. Inr (g x)) xs) = Inr (map g xs)"
  by (induction xs) simp_all

lemma zip_map_update:
  "map (\<lambda>rv. (fst rv)[i := snd rv]) (zip xs (map g xs)) = map (\<lambda>r. r[i := g r]) xs"
  by (induction xs) simp_all

lemma apply_column_fillna:
  assumes "find_column l df = Some p"
  shows "apply_column l (fillna v) miss df
     = Inr \<lparr>columns = columns df,
            rows = map (\<lambda>r. r[p := (if cell r p = JNull then v else cell r p)]) (rows df)\<rparr>"
proof -
  have "map (\<lambda>r. fillna v (cell r p)) (rows df)
      = map (\<lambda>r. Inr (if cell r p = JNull then v else cell r p)) (rows df)"
    by (simp add: fillna_def)
  then have "sequence (map (\<lambda>r. fillna v (cell r p)) (rows df))
      = Inr (map (\<lambda>r. if cell r p = JNull then v else cell r p) (rows df))"
    by (simp only: sequence_Inr)
  then show ?thesis
    using assms by (simp add: apply_column_def zip_map_update)
qed

lemma sequence_length: "sequence xs = Inr vs \<Longrightarrow> length vs = length xs"
  by (induction xs arbitrary: vs) (auto split: sum.splits)

lemma apply_column_keeps:
  assumes "apply_column l g miss df = Inr df'"
  shows "columns df' = columns df \<and> length (rows df') = length (rows df) \<and>
         (\<forall>k p. k < length (rows df) \<longrightarrow> columns df ! p \<noteq> l \<longrightarrow>
            cell (rows df' ! k) p = cell (rows df ! k) p)"
proof -
  from assms obtain i vs where i: "find_column l df = Some i"
    and vs: "sequence (map (\<lambda>r. g (cell r i)) (rows df)) = Inr vs"
    and d: "df' = \<lparr>columns = columns df, rows = map (\<lambda>rv. (fst rv)[i := snd rv]) (zip (rows df) vs)\<rparr>"
    by (auto simp: apply_column_def split: option.splits sum.splits)
  from i have il: "columns df ! i = l"
    by (auto simp: find_column_def split: list.splits dest: positions_mem)
  from sequence_length[OF vs] have len: "length vs = length (rows df)" by simp
  have "cell (rows df' ! k) p = cell (rows df ! k) p"
    if "k < length (rows df)" and "columns df ! p \<noteq> l" for k p
  proof -
    from that(2) il have "p \<noteq> i" by auto
    then show ?thesis using that(1) len by (simp add: d cell_def)
  qed
  then show ?thesis using len by (simp add: d)
qed

lemma filter_key_distinct:
  "distinct (map key xs) \<Longrightarrow> filter (\<lambda>q. key q = k) xs = q # qs \<Longrightarrow> qs = []"
proof (induction xs)
  case Nil
  then show ?case by simp
next
  case (Cons x xs)
  show ?case
  proof (cases "key x = k")
    case True
    with Cons.prems(1) have "\<forall>y \<in> set xs. key y \<noteq> k" by (auto simp: image_iff)
    then have "filter (\<lambda>q. key q = k) xs = []" by (simp add: filter_empty_conv)
    with Cons.prems(2) True show ?thesis by simp
  next
    case False
    with Cons show ?thesis by simp
  qed
qed

lemma cell_append_left: "p < length l \<Longrightarrow> cell (l @ x) p = cell l p"
  by (simp add: cell_def nth_append)

lemma cell_append_right: "cell (l @ x) (length l + p) = cell x p"
  by (simp add: cell_def nth_append)

lemma cell_update_other: "p \<noteq> t \<Longrightarrow> cell (r[t := v]) p = cell r p"
  by (simp add: cell_def)

lemma cell_update_same: "t < length r \<Longrightarrow> cell (r[t := v]) t = v"
  by (simp add: cell_def)

lemma cell_map_upt: "p < n \<Longrightarrow> cell (map (cell r) [0..<n]) p = cell r p"
  by (simp add: cell_def)

lemma merge_left_unique_keys:
  assumes "positions lk (columns l) = [i]" and "positions rk (columns r) = [j]"
  shows "merge_left l r lk rk =
    Inr \<lparr>columns = map (suffixed (filter (\<lambda>c. c \<in> set (columns r)) (columns l)) ''_x'') (columns l)
                   @ map (suffixed (filter (\<lambda>c. c \<in> set (columns r)) (columns l)) ''_y'') (columns r),
         rows = concat (map (\<lambda>a. case filter (\<lambda>b. cell b j = cell a i) (rows r) of
                                   [] \<Rightarrow> [a @ replicate (length (columns r)) JNull]
                                 | m # ms \<Rightarrow> map (\<lambda>b. a @ b) (m # ms)) (rows l))\<rparr>"
  by (simp add: merge_left_def assms Let_def)

lemma concat_map_single: "concat (map (\<lambda>x. [g x]) xs) = map g xs"
  by (induction xs) simp_all

lemma epic_backfill_result:
  assumes wf: "well_formed e"
    and xi: "positions ''issue_id'' (columns e) = [xi]"
    and xn: "positions ''epic_name'' (columns e) = [xn]"
    and xc: "positions ''epic_color'' (columns e) = [xc]"
    and xp: "positions ''parent_id'' (columns e) = [xp]"
    and fresh: "\<And>c. c \<in> set (columns e) \<Longrightarrow>
        c \<notin> set [''issue_id_x'', ''epic_name_x'', ''epic_color_x'',
                  ''issue_id_y'', ''epic_name_y'', ''epic_color_y'']"
    and ids: "distinct (map (\<lambda>r. cell r xi) (rows e))"
  shows "\<exists>out. epic_backfill e = Inr out \<and> columns out = columns e \<and>
           length (rows out) = length (rows e) \<and>
           (\<forall>k < length (rows e).
              cell (rows out ! k) xn =
                (if cell (rows e ! k) xn \<noteq> JNull then cell (rows e ! k) xn
                 else if parent_epic e xi xn xp (rows e ! k) \<noteq> JNull
                      then parent_epic e xi xn xp (rows e ! k)
                 else JStr ''No Epic''))"
proof -
  let ?cs = "columns e"
  let ?n = "length ?cs"
  let ?three = "[''issue_id'', ''epic_name'', ''epic_color'']"
  let ?ys = "[''issue_id_y'', ''epic_name_y'', ''epic_color_y'']"
  note m = positions_mem[OF xi] positions_mem[OF xn] positions_mem[OF xc] positions_mem[OF xp]
  have len: "length l = ?n" if "l \<in> set (rows e)" for l
    using wf that by (simp add: well_formed_def)
  define f where "f = (\<lambda>r. [cell r xi, cell r xn, cell r xc])"
  define epics where "epics = \<lparr>columns = ?three, rows = map f (rows e)\<rparr>"
  have a: "getitem ?three e = Inr epics"
    using m by (simp add: getitem_def label_positions_def xi xn xc pick_def epics_def f_def)
  define overlap where "overlap = filter (\<lambda>c. c \<in> set (columns epics)) ?cs"
  define sx where "sx = suffixed overlap ''_x''"
  have ov: "c \<in> set overlap \<longleftrightarrow> c \<in> set ?three" if "c \<in> set ?cs" for c
    using that by (simp add: overlap_def epics_def)
  have sx_name: "(sx c = ''epic_name_x'') = (c = ''epic_name'')" if "c \<in> set ?cs" for c
    using fresh[OF that] ov[OF that] by (auto simp: sx_def suffixed_def)
  have sx_color: "(sx c = ''epic_color_x'') = (c = ''epic_color'')" if "c \<in> set ?cs" for c
    using fresh[OF that] ov[OF that] by (auto simp: sx_def suffixed_def)
  have sx_y: "sx c \<notin> set ?ys" if "c \<in> set ?cs" for c
    using fresh[OF that] ov[OF that] by (auto simp: sx_def suffixed_def)
  have ce: "columns epics = ?three" "rows epics = map f (rows e)"
    by (simp_all add: epics_def)
  have sy: "map (suffixed overlap ''_y'') (columns epics) = ?ys"
    using m ov by (simp add: suffixed_def ce)
  define ext where "ext = (\<lambda>l. case filter (\<lambda>q. cell q xi = cell l xp) (rows e) of
        [] \<Rightarrow> [JNull, JNull, JNull] | q # qs \<Rightarrow> f q)"
  have ext_len: "length (ext l) = 3" for l
    by (simp add: ext_def f_def split: list.splits)
  have ext1: "cell (ext l) (Suc 0) = parent_epic e xi xn xp l" for l
    by (simp add: ext_def f_def parent_epic_def cell_def split: list.splits)
  define m1 where "m1 = \<lparr>columns = map sx ?cs @ ?ys, rows = map (\<lambda>l. l @ ext l) (rows e)\<rparr>"
  have row1: "(case filter (\<lambda>r. cell r 0 = cell l xp) (rows epics) of
                 [] \<Rightarrow> [l @ replicate (length (columns epics)) JNull]
               | m # ms \<Rightarrow> map (\<lambda>r. l @ r) (m # ms)) = [l @ ext l]" for l
  proof -
    have fm: "filter (\<lambda>r. cell r 0 = cell l xp) (map f (rows e))
        = map f (filter (\<lambda>q. cell q xi = cell l xp) (rows e))"
      by (simp add: filter_map comp_def f_def cell_def)
    show ?thesis
    proof (cases "filter (\<lambda>q. cell q xi = cell l xp) (rows e)")
      case Nil
      then show ?thesis by (simp add: fm ext_def ce)
    next
      case (Cons q qs)
      from filter_key_distinct[OF ids Cons] have "qs = []" .
      with Cons show ?thesis by (simp add: fm ext_def ce)
    qed
  qed
  have b: "merge_left e epics ''parent_id'' ''issue_id'' = Inr m1"
  proof -
    have pe: "positions ''issue_id'' (columns epics) = [0]"
      by (simp add: ce positions_def)
    show ?thesis
      by (simp only: merge_left_unique_keys[OF xp pe] overlap_def[symmetric] sx_def[symmetric]
          row1 sy concat_map_single m1_def)
  qed
  let ?cm = "map sx ?cs @ ?ys"
  have p_nx: "positions ''epic_name_x'' ?cm = [xn]"
    using positions_map[of ?cs sx "''epic_name_x''" "''epic_name''", OF sx_name]
    by (simp add: positions_append xn) (simp add: positions_def)
  have p_cx: "positions ''epic_color_x'' ?cm = [xc]"
    using positions_map[of ?cs sx "''epic_color_x''" "''epic_color''", OF sx_color]
    by (simp add: positions_append xc) (simp add: positions_def)
  have none_y: "positions y (map sx ?cs) = []" if "y \<in> set ?ys" for y
    using sx_y that by (intro positions_map_none) auto
  have p_iy: "positions ''issue_id_y'' ?cm = [?n]"
    by (simp add: positions_append none_y) (simp add: positions_def)
  have p_ny: "positions ''epic_name_y'' ?cm = [?n + 1]"
    by (simp add: positions_append none_y) (simp add: positions_def)
  have p_cy: "positions ''epic_color_y'' ?cm = [?n + 2]"
    by (simp add: positions_append none_y) (simp add: positions_def)
  define m2 where "m2 = \<lparr>columns = ?cm,
      rows = map (\<lambda>r. if cell r xn = JNull then r[xn := cell r (?n + 1)] else r) (rows m1)\<rparr>"
  have c: "fill_null_from ''epic_name_x'' ''epic_name_y'' m1 = Inr m2"
    by (simp add: fill_null_from_def find_column_def m1_def p_nx p_ny m2_def)
  define m3 where "m3 = \<lparr>columns = ?cm,
      rows = map (\<lambda>r. if cell r xc = JNull then r[xc := cell r (?n + 2)] else r) (rows m2)\<rparr>"
  have d: "fill_null_from ''epic_color_x'' ''epic_color_y'' m2 = Inr m3"
    by (simp add: fill_null_from_def find_column_def m2_def p_cx p_cy m3_def)
  define m4 where "m4 = \<lparr>columns = map sx ?cs, rows = map (\<lambda>r. map (cell r) [0..<?n]) (rows m3)\<rparr>"
  have keep: "filter (\<lambda>i. ?cm ! i \<notin> set ?ys) [0..<length ?cm] = [0..<?n]"
  proof -
    have "[0..<length ?cm] = [0..<?n] @ [?n, ?n + 1, ?n + 2]"
      by (simp add: upt_rec[of ?n] upt_rec[of "Suc ?n"] upt_rec[of "Suc (Suc ?n)"])
    moreover have "filter (\<lambda>i. ?cm ! i \<notin> set ?ys) [0..<?n] = [0..<?n]"
      using sx_y by (simp add: filter_id_conv nth_append)
    moreover have "filter (\<lambda>i. ?cm ! i \<notin> set ?ys) [?n, ?n + 1, ?n + 2] = []"
      by (simp add: nth_append)
    ultimately show ?thesis by simp
  qed
  have e: "drop_columns ?ys m3 = Inr m4"
  proof -
    have "map ((!) ?cm) [0..<?n] = map sx ?cs"
      by (intro nth_equalityI) (simp_all add: nth_append)
    then show ?thesis
      using keep by (simp add: drop_columns_def m3_def pick_def m4_def)
  qed
  let ?d3 = "[(''issue_id_x'', ''issue_id''), (''epic_name_x'', ''epic_name''),
              (''epic_color_x'', ''epic_color'')]"
  have restore: "new_name ?d3 (sx c) = c" if "c \<in> set ?cs" for c
    using fresh[OF that] ov[OF that] by (auto simp: sx_def suffixed_def new_name_def)
  define m5 where "m5 = \<lparr>columns = ?cs, rows = rows m4\<rparr>"
  have f: "rename_columns ?d3 m4 = m5"
    using restore by (simp add: rename_columns_def m4_def m5_def map_idI)
  define out where "out = \<lparr>columns = ?cs,
      rows = map (\<lambda>r. r[xn := (if cell r xn = JNull then JStr ''No Epic'' else cell r xn)]) (rows m5)\<rparr>"
  have g: "apply_column ''epic_name'' (fillna (JStr ''No Epic'')) AttributeError m5 = Inr out"
    using apply_column_fillna[of "''epic_name''" m5 xn]
    by (simp add: find_column_def m5_def xn out_def)
  have run: "epic_backfill e = Inr out"
    by (simp add: epic_backfill_def then_do_def a b c d e f g)
  have cell_out: "cell (rows out ! k) xn =
                (if cell (rows e ! k) xn \<noteq> JNull then cell (rows e ! k) xn
                 else if parent_epic e xi xn xp (rows e ! k) \<noteq> JNull
                      then parent_epic e xi xn xp (rows e ! k)
                 else JStr ''No Epic'')" if k: "k < length (rows e)" for k
  proof -
    let ?l = "rows e ! k"
    have ll: "length ?l = ?n" using len k by simp
    have ne: "xn \<noteq> xc" using m by auto
    have lt: "xn < ?n" using m by simp
    define r1 where "r1 = ?l @ ext ?l"
    define r2 where "r2 = (if cell r1 xn = JNull then r1[xn := cell r1 (?n + 1)] else r1)"
    define r3 where "r3 = (if cell r2 xc = JNull then r2[xc := cell r2 (?n + 2)] else r2)"
    define r4 where "r4 = map (cell r3) [0..<?n]"
    have o: "rows out ! k = r4[xn := (if cell r4 xn = JNull then JStr ''No Epic'' else cell r4 xn)]"
      using k by (simp add: out_def m5_def m4_def m3_def m2_def m1_def r4_def r3_def r2_def r1_def)
    have c1: "cell r1 xn = cell ?l xn"
      using lt ll by (simp add: r1_def cell_append_left)
    have c1y: "cell r1 (Suc ?n) = parent_epic e xi xn xp ?l"
      using cell_append_right[of ?l "ext ?l" 1] ll by (simp add: r1_def ext1)
    have l1: "length r1 = ?n + 3" by (simp add: r1_def ll ext_len)
    have c2: "cell r2 xn = (if cell ?l xn = JNull then parent_epic e xi xn xp ?l else cell ?l xn)"
      using lt l1 by (simp add: r2_def c1 c1y cell_update_same)
    have c3: "cell r3 xn = cell r2 xn"
      using ne by (simp add: r3_def cell_update_other)
    have c4: "cell r4 xn = cell r3 xn"
      using lt by (simp add: r4_def cell_map_upt)
    have "length r4 = ?n" by (simp add: r4_def)
    then have "cell (rows out ! k) xn = (if cell r4 xn = JNull then JStr ''No Epic'' else cell r4 xn)"
      using lt by (simp add: o cell_update_same)
    then show ?thesis by (simp add: c4 c3 c2)
  qed
  have "columns out = ?cs" "length (rows out) = length (rows e)"
    by (simp_all add: out_def m5_def m4_def m3_def m2_def m1_def)
  with run cell_out show ?thesis by blast
qed

lemma positions_distinct_single:
  "distinct xs \<Longrightarrow> x \<in> set xs \<Longrightarrow> \<exists>p. positions x xs = [p]"
proof (induction xs rule: rev_induct)
  case Nil
  then show ?case by simp
next
  case (snoc y xs)
  show ?case
  proof (cases "y = x")
    case True
    with snoc.prems have "x \<notin> set xs" by simp
    then show ?thesis using True by (simp add: positions_snoc positions_absent)
  next
    case False
    with snoc show ?thesis by (auto simp: positions_snoc)
  qed
qed

lemma renamed_source:
  assumes "filter (\<lambda>kv. snd kv = l) COLUMN_NAME_DICT = [(src, l)]"
    and "new_name COLUMN_NAME_DICT src = l"
    and "c \<in> set RELEVANT_FIELDS"
  shows "(new_name COLUMN_NAME_DICT c = l) = (c = src)"
proof
  assume "new_name COLUMN_NAME_DICT c = l"
  with new_name_in_values[OF assms(3)]
  have "(c, l) \<in> set (filter (\<lambda>kv. snd kv = l) COLUMN_NAME_DICT)" by simp
  then show "c = src" unfolding assms(1) by simp
next
  assume "c = src"
  with assms(2) show "new_name COLUMN_NAME_DICT c = l" by simp
qed

lemma key_sources:
  "filter (\<lambda>kv. snd kv = ''issue_id'') COLUMN_NAME_DICT = [(''id'', ''issue_id'')]"
  "filter (\<lambda>kv. snd kv = ''epic_name'') COLUMN_NAME_DICT
     = [(''fields.customfield_10011'', ''epic_name'')]"
  "filter (\<lambda>kv. snd kv = ''epic_color'') COLUMN_NAME_DICT
     = [(''fields.customfield_10017'', ''epic_color'')]"
  "filter (\<lambda>kv. snd kv = ''parent_id'') COLUMN_NAME_DICT = [(''fields.parent.id'', ''parent_id'')]"
  by code_simp+

lemma key_renamings:
  "new_name COLUMN_NAME_DICT ''id'' = ''issue_id''"
  "new_name COLUMN_NAME_DICT ''fields.customfield_10011'' = ''epic_name''"
  "new_name COLUMN_NAME_DICT ''fields.customfield_10017'' = ''epic_color''"
  "new_name COLUMN_NAME_DICT ''fields.parent.id'' = ''parent_id''"
  by code_simp+

lemma short_names_unsuffixed:
  "\<forall>v \<in> set (map snd COLUMN_NAME_DICT).
     v \<notin> set [''issue_id_x'', ''epic_name_x'', ''epic_color_x'',
               ''issue_id_y'', ''epic_name_y'', ''epic_color_y'']"
  by code_simp

lemma project_rename_columns:
  assumes "distinct (columns df)"
  shows "columns (project_rename df)
     = map (new_name COLUMN_NAME_DICT) (filter (\<lambda>c. c \<in> set RELEVANT_FIELDS) (columns df))"
  using columns_pick_filter[of "\<lambda>c. c \<in> set RELEVANT_FIELDS" df]
  by (simp add: project_rename_def rename_columns_def select_relevant_distinct[OF assms])

lemma project_rename_once:
  assumes d: "distinct (columns df)"
    and l: "l \<in> set [''issue_id'', ''epic_name'', ''epic_color'', ''parent_id'']"
    and present: "l \<in> set (columns (project_rename df))"
  shows "\<exists>p. positions l (columns (project_rename df)) = [p]"
proof -
  let ?cs' = "filter (\<lambda>c. c \<in> set RELEVANT_FIELDS) (columns df)"
  let ?nn = "new_name COLUMN_NAME_DICT"
  from l obtain src where src: "\<And>c. c \<in> set RELEVANT_FIELDS \<Longrightarrow> (?nn c = l) = (c = src)"
    using renamed_source[OF key_sources(1) key_renamings(1)]
      renamed_source[OF key_sources(2) key_renamings(2)]
      renamed_source[OF key_sources(3) key_renamings(3)]
      renamed_source[OF key_sources(4) key_renamings(4)]
    by auto
  have cols: "columns (project_rename df) = map ?nn ?cs'" by (rule project_rename_columns[OF d])
  have "positions l (map ?nn ?cs') = positions src ?cs'"
    by (rule positions_map) (simp add: src)
  moreover from present obtain c where "c \<in> set ?cs'" "?nn c = l" by (auto simp: cols)
  then have "src \<in> set ?cs'" using src by auto
  moreover have "distinct ?cs'" using d by simp
  ultimately show ?thesis
    using positions_distinct_single[of ?cs' src] by (simp add: cols)
qed

lemma project_rename_fresh:
  assumes "c \<in> set (columns (project_rename df))"
  shows "c \<notin> set [''issue_id_x'', ''epic_name_x'', ''epic_color_x'',
                   ''issue_id_y'', ''epic_name_y'', ''epic_color_y'']"
proof -
  from assms obtain c0 where "c0 \<in> set RELEVANT_FIELDS" "c = new_name COLUMN_NAME_DICT c0"
    using select_relevant_columns[of df]
    by (auto simp: project_rename_def rename_columns_def)
  with new_name_in_values[of c0] have "c \<in> set (map snd COLUMN_NAME_DICT)" by force
  with short_names_unsuffixed show ?thesis by blast
qed

lemma project_rename_well_formed: "well_formed (project_rename df)"
  by (simp add: well_formed_def project_rename_def rename_columns_def select_relevant_def pick_def)

lemma project_rename_length: "length (rows (project_rename df)) = length (rows df)"
  by (simp add: project_rename_def rename_columns_def select_relevant_def pick_def)

lemma filter_key_unique:
  assumes "distinct (map key xs)" and "j < length xs" and "key (xs ! j) = k"
  shows "filter (\<lambda>q. key q = k) xs = [xs ! j]"
proof -
  have "xs ! j \<in> set (filter (\<lambda>q. key q = k) xs)" using assms by simp
  then obtain q qs where f: "filter (\<lambda>q. key q = k) xs = q # qs"
    by (cases "filter (\<lambda>q. key q = k) xs") auto
  from filter_key_distinct[OF assms(1) f] have qs: "qs = []" .
  have "q \<in> set (filter (\<lambda>q. key q = k) xs)" by (simp add: f)
  then have "q \<in> set xs" "key q = k" by simp_all
  moreover have "inj_on key (set xs)" using assms(1) by (simp add: distinct_map)
  ultimately have "q = xs ! j" using assms(2,3) by (auto dest: inj_onD)
  with f qs show ?thesis by simp
qed

lemma replace_colors_keeps:
  assumes "replace_colors b = Inr out" and "columns b ! p = ''epic_name''"
  shows "length (rows out) = length (rows b) \<and>
         (\<forall>k < length (rows b). cell (rows out ! k) p = cell (rows b ! k) p) \<and>
         columns out = columns b"
proof -
  from assms(1) obtain d1 d2 where
    s1: "apply_column ''epic_color'' color_cell KeyError b = Inr d1" and
    s2: "apply_column ''status_cat_color'' color_cell KeyError d1 = Inr d2" and
    s3: "apply_column ''parent_status_cat_color'' color_cell KeyError d2 = Inr out"
    by (auto simp: replace_colors_def then_do_def split: sum.splits)
  note k1 = apply_column_keeps[OF s1] and k2 = apply_column_keeps[OF s2]
    and k3 = apply_column_keeps[OF s3]
  show ?thesis
    using k1 k2 k3 assms(2) by simp
qed

lemma then_do_Inr: "then_do x f = Inr r \<Longrightarrow> \<exists>v. x = Inr v \<and> f v = Inr r"
  by (cases x) (simp_all add: then_do_def)

lemma getitem_Inr: "getitem ls df = Inr r \<Longrightarrow> set ls \<subseteq> set (columns df)"
  by (auto simp: getitem_def split: if_splits)

lemma merge_left_Inr: "merge_left l r lk rk = Inr m \<Longrightarrow> lk \<in> set (columns l)"
  by (auto simp: merge_left_def split: list.splits dest: positions_mem)

lemma value_at_position:
  "positions l (columns df) = [p] \<Longrightarrow> k < length (rows df) \<Longrightarrow>
     value_at df k l = cell (rows df ! k) p"
  by (simp add: value_at_def find_column_def)

text \<open>
  C4. After the enrichment cell has run on a flattened issue table with distinct labels
  and distinct issue ids, every issue row keeps its place, and its \<open>epic_name\<close> is:
  its own epic name, unchanged, when that was not null; the epic name of the row whose
  \<open>issue_id\<close> equals its \<open>parent_id\<close>, when its own was null and that row has an epic name
  (\<open>Feature X\<close>, say); and the string \<open>No Epic\<close> when its own was null and no row's
  \<open>issue_id\<close> equals its \<open>parent_id\<close>. "Was" refers to the table after projection and
  renaming, before the self-join.
\<close>

theorem epic_backfill_cases:
  assumes "distinct (columns df_issues)"
    and "enhance df_issues = Inr out"
    and "distinct (map (\<lambda>k. value_at (project_rename df_issues) k ''issue_id'')
                    [0..<length (rows df_issues)])"
    and "i < length (rows df_issues)"
  shows "length (rows out) = length (rows df_issues) \<and>
    (value_at (project_rename df_issues) i ''epic_name'' \<noteq> JNull \<longrightarrow>
       value_at out i ''epic_name'' = value_at (project_rename df_issues) i ''epic_name'') \<and>
    (\<forall>j name.
       value_at (project_rename df_issues) i ''epic_name'' = JNull \<and>
       j < length (rows df_issues) \<and>
       value_at (project_rename df_issues) j ''issue_id''
         = value_at (project_rename df_issues) i ''parent_id'' \<and>
       value_at (project_rename df_issues) j ''epic_name'' = JStr name \<longrightarrow>
       value_at out i ''epic_name'' = JStr name) \<and>
    (value_at (project_rename df_issues) i ''epic_name'' = JNull \<and>
     (\<forall>j < length (rows df_issues).
        value_at (project_rename df_issues) j ''issue_id''
          \<noteq> value_at (project_rename df_issues) i ''parent_id'') \<longrightarrow>
       value_at out i ''epic_name'' = JStr ''No Epic'')"
proof -
  let ?e = "project_rename df_issues"
  let ?N = "length (rows df_issues)"
  have N: "length (rows ?e) = ?N" by (rule project_rename_length)
  from assms(2) obtain b where b: "epic_backfill ?e = Inr b" and rc: "replace_colors b = Inr out"
    by (auto simp: enhance_def dest: then_do_Inr)
  from b obtain epics where g: "getitem [''issue_id'', ''epic_name'', ''epic_color''] ?e = Inr epics"
    and "\<exists>m. merge_left ?e epics ''parent_id'' ''issue_id'' = Inr m"
    unfolding epic_backfill_def by (blast dest: then_do_Inr)
  then have present: "''issue_id'' \<in> set (columns ?e)" "''epic_name'' \<in> set (columns ?e)"
    "''epic_color'' \<in> set (columns ?e)" "''parent_id'' \<in> set (columns ?e)"
    using getitem_Inr[OF g] by (auto dest: merge_left_Inr)
  obtain xi xn xc xp where
    xi: "positions ''issue_id'' (columns ?e) = [xi]" and
    xn: "positions ''epic_name'' (columns ?e) = [xn]" and
    xc: "positions ''epic_color'' (columns ?e) = [xc]" and
    xp: "positions ''parent_id'' (columns ?e) = [xp]"
    using project_rename_once[OF assms(1) _ present(1)] project_rename_once[OF assms(1) _ present(2)]
      project_rename_once[OF assms(1) _ present(3)] project_rename_once[OF assms(1) _ present(4)]
    by auto
  have va: "value_at ?e k ''issue_id'' = cell (rows ?e ! k) xi"
    "value_at ?e k ''epic_name'' = cell (rows ?e ! k) xn"
    "value_at ?e k ''parent_id'' = cell (rows ?e ! k) xp" if "k < ?N" for k
    using that by (simp_all add: value_at_position xi xn xp N)
  have "map (\<lambda>r. cell r xi) (rows ?e) = map (\<lambda>k. value_at ?e k ''issue_id'') [0..<?N]"
    by (intro nth_equalityI) (simp_all add: N va)
  with assms(3) have ids: "distinct (map (\<lambda>r. cell r xi) (rows ?e))"
    by simp
  from epic_backfill_result[OF project_rename_well_formed xi xn xc xp project_rename_fresh ids] b
  have colsb: "columns b = columns ?e" and lenb: "length (rows b) = ?N"
    and cellb: "\<And>k. k < ?N \<Longrightarrow> cell (rows b ! k) xn =
                (if cell (rows ?e ! k) xn \<noteq> JNull then cell (rows ?e ! k) xn
                 else if parent_epic ?e xi xn xp (rows ?e ! k) \<noteq> JNull
                      then parent_epic ?e xi xn xp (rows ?e ! k)
                 else JStr ''No Epic'')"
    by (auto simp: N)
  have "columns b ! xn = ''epic_name''"
    using positions_mem[OF xn] by (simp add: colsb)
  from replace_colors_keeps[OF rc this]
  have leno: "length (rows out) = ?N"
    and cello: "\<And>k. k < ?N \<Longrightarrow> cell (rows out ! k) xn = cell (rows b ! k) xn"
    and colso: "columns out = columns ?e"
    by (auto simp: lenb colsb)
  have vo: "value_at out i ''epic_name'' = cell (rows out ! i) xn"
    using assms(4) by (simp add: value_at_def find_column_def colso xn leno)
  let ?own = "cell (rows ?e ! i) xn"
  let ?par = "parent_epic ?e xi xn xp (rows ?e ! i)"
  have res: "value_at out i ''epic_name''
      = (if ?own \<noteq> JNull then ?own else if ?par \<noteq> JNull then ?par else JStr ''No Epic'')"
    using cello[OF assms(4)] cellb[OF assms(4)] by (simp add: vo)
  have matched: "?par = JStr name"
    if "j < ?N" and "cell (rows ?e ! j) xi = cell (rows ?e ! i) xp"
      and "cell (rows ?e ! j) xn = JStr name" for j name
  proof -
    from filter_key_unique[OF ids, of j "cell (rows ?e ! i) xp"] that(1,2)
    have "filter (\<lambda>q. cell q xi = cell (rows ?e ! i) xp) (rows ?e) = [rows ?e ! j]"
      by (simp add: N)
    then show ?thesis by (simp add: parent_epic_def that(3))
  qed
  have unmatched: "?par = JNull"
    if "\<forall>j < ?N. cell (rows ?e ! j) xi \<noteq> cell (rows ?e ! i) xp"
  proof -
    have "filter (\<lambda>q. cell q xi = cell (rows ?e ! i) xp) (rows ?e) = []"
      using that by (auto simp: filter_empty_conv in_set_conv_nth N)
    then show ?thesis by (simp add: parent_epic_def)
  qed
  show ?thesis
  proof (intro conjI allI impI)
    show "length (rows out) = ?N" by (rule leno)
  next
    assume "value_at ?e i ''epic_name'' \<noteq> JNull"
    then show "value_at out i ''epic_name'' = value_at ?e i ''epic_name''"
      using assms(4) by (simp add: res va)
  next
    fix j name
    assume h: "value_at ?e i ''epic_name'' = JNull \<and> j < ?N \<and>
       value_at ?e j ''issue_id'' = value_at ?e i ''parent_id'' \<and>
       value_at ?e j ''epic_name'' = JStr name"
    then have hj: "j < ?N" and hn: "value_at ?e i ''epic_name'' = JNull"
      and hm: "value_at ?e j ''issue_id'' = value_at ?e i ''parent_id''"
      and he: "value_at ?e j ''epic_name'' = JStr name"
      by simp_all
    have "?par = JStr name"
      using hj hm he assms(4) by (intro matched[of j]) (simp_all add: va)
    with hn show "value_at out i ''epic_name'' = JStr name"
      using assms(4) by (simp add: res va)
  next
    assume h: "value_at ?e i ''epic_name'' = JNull \<and>
     (\<forall>j < ?N. value_at ?e j ''issue_id'' \<noteq> value_at ?e i ''parent_id'')"
    then have hn: "value_at ?e i ''epic_name'' = JNull"
      and hu: "\<forall>j < ?N. value_at ?e j ''issue_id'' \<noteq> value_at ?e i ''parent_id''"
      by simp_all
    have "?par = JNull"
      using hu assms(4) by (intro unmatched) (simp add: va)
    with hn show "value_at out i ''epic_name'' = JStr ''No Epic''"
      using assms(4) by (simp add: res va)
  qed
qed

lemma demo_enhance: "enhance demo_issues = Inr demo_enhanced"
  by code_simp

lemma demo_projected:
  "project_rename demo_issues
    = \<lparr>columns = [''issue_id'', ''epic_name'', ''epic_color'', ''parent_id'', ''status_cat_color'',
                ''parent_status_cat_color''], rows = rows demo_issues\<rparr>"
  by code_simp

theorem epic_backfill_cases_witness:
  "distinct (columns demo_issues) \<and>
   enhance demo_issues = Inr demo_enhanced \<and>
   distinct (map (\<lambda>k. value_at (project_rename demo_issues) k ''issue_id'')
               [0..<length (rows demo_issues)]) \<and>
   (1::nat) < length (rows demo_issues) \<and>
   value_at (project_rename demo_issues) 1 ''epic_name'' = JNull \<and>
   value_at (project_rename demo_issues) 0 ''issue_id''
     = value_at (project_rename demo_issues) 1 ''parent_id'' \<and>
   value_at (project_rename demo_issues) 0 ''epic_name'' = JStr ''Feature X'' \<and>
   length (rows demo_enhanced) = length (rows demo_issues) \<and>
   value_at demo_enhanced 1 ''epic_name'' = JStr ''Feature X''"
proof -
  have h1: "distinct (columns demo_issues)" by code_simp
  have h2: "enhance demo_issues = Inr demo_enhanced" by (rule demo_enhance)
  have h3: "distinct (map (\<lambda>k. value_at (project_rename demo_issues) k ''issue_id'')
               [0..<length (rows demo_issues)])" by code_simp
  have h4: "(1::nat) < length (rows demo_issues)" by code_simp
  have v: "value_at (project_rename demo_issues) 1 ''epic_name'' = JNull"
    "value_at (project_rename demo_issues) 0 ''issue_id''
     = value_at (project_rename demo_issues) 1 ''parent_id''"
    "value_at (project_rename demo_issues) 0 ''epic_name'' = JStr ''Feature X''"
    "(0::nat) < length (rows demo_issues)"
    by code_simp+
  from epic_backfill_cases[OF h1 h2 h3 h4] v
  have "length (rows demo_enhanced) = length (rows demo_issues)"
    and "value_at demo_enhanced 1 ''epic_name'' = JStr ''Feature X''"
    by blast+
  with h1 h2 h3 h4 v show ?thesis by blast
qed

subsection \<open>The issues of a board\<close>

lemma getitem_present: "set ls \<subseteq> set (columns df) \<Longrightarrow> \<exists>r. getitem ls df = Inr r"
  by (auto simp: getitem_def)

lemma getitem_empty_table: "getitem sprint_issue_columns \<lparr>columns = [], rows = []\<rparr> = Inl KeyError"
  by (auto simp: getitem_def sprint_issue_columns_def)

lemma collect_returns:
  "collect_issue_rows e ids acc = Some (Inr issue_rows) \<Longrightarrow>
     \<forall>s \<in> set ids. \<exists>fetched. outcome (jira_get_sprint_issues e s) = Some (Inr fetched) \<and>
        set sprint_issue_columns \<subseteq> set (columns fetched)"
proof (induction ids arbitrary: acc)
  case Nil
  then show ?case by simp
next
  case (Cons s ids)
  from Cons.prems obtain fetched df_issues where
    f: "outcome (jira_get_sprint_issues e s) = Some (Inr fetched)" and
    g: "getitem sprint_issue_columns fetched = Inr df_issues" and
    r: "collect_issue_rows e ids (acc @ rows (assign_column ''sprint'' s df_issues))
          = Some (Inr issue_rows)"
    by (auto split: option.splits sum.splits)
  from Cons.IH[OF r] f getitem_Inr[OF g] show ?case by auto
qed

lemma collect_key_error:
  assumes "\<forall>s' \<in> set before. \<exists>fetched. outcome (jira_get_sprint_issues e s') = Some (Inr fetched) \<and>
        set sprint_issue_columns \<subseteq> set (columns fetched)"
    and "outcome (jira_get_sprint_issues e s) = Some (Inr \<lparr>columns = [], rows = []\<rparr>)"
  shows "collect_issue_rows e (before @ s # after) acc = Some (Inl KeyError)"
  using assms(1)
proof (induction before arbitrary: acc)
  case Nil
  then show ?case by (simp add: assms(2) getitem_empty_table)
next
  case (Cons b before)
  then obtain fetched where f: "outcome (jira_get_sprint_issues e b) = Some (Inr fetched)"
    and c: "set sprint_issue_columns \<subseteq> set (columns fetched)" by auto
  from getitem_present[OF c] obtain r where g: "getitem sprint_issue_columns fetched = Inr r"
    by auto
  from Cons show ?case by (simp add: f g)
qed

lemma collect_ends:
  "\<forall>s \<in> set ids. jira_get_sprint_issues e s \<noteq> None \<Longrightarrow> collect_issue_rows e ids acc \<noteq> None"
  by (induction ids arbitrary: acc) (auto simp: outcome_def split: option.splits sum.splits)

lemma board_returns:
  assumes "jira_get_board_issues e board_id = Some (Inr t)"
  shows "\<exists>df_all_sprints sprint_ids.
        outcome (jira_get_sprints e board_id) = Some (Inr df_all_sprints) \<and>
        id_to_list df_all_sprints = Inr sprint_ids \<and>
        (\<forall>s \<in> set sprint_ids. \<exists>fetched.
           outcome (jira_get_sprint_issues e s) = Some (Inr fetched) \<and>
           set sprint_issue_columns \<subseteq> set (columns fetched))"
proof -
  from assms obtain sp ids issue_rows where
    a: "outcome (jira_get_sprints e board_id) = Some (Inr sp)" and
    b: "id_to_list sp = Inr ids" and
    c: "collect_issue_rows e ids [] = Some (Inr issue_rows)"
    by (auto simp: jira_get_board_issues_def split: option.splits sum.splits)
  from collect_returns[OF c] a b show ?thesis by blast
qed

lemma board_raises_key_error:
  assumes "outcome (jira_get_sprints e board_id) = Some (Inr all_sprints)"
    and "id_to_list all_sprints = Inr (before @ s # after)"
    and "\<forall>s' \<in> set before. \<exists>fetched. outcome (jira_get_sprint_issues e s') = Some (Inr fetched) \<and>
        set sprint_issue_columns \<subseteq> set (columns fetched)"
    and "outcome (jira_get_sprint_issues e s) = Some (Inr \<lparr>columns = [], rows = []\<rparr>)"
  shows "jira_get_board_issues e board_id = Some (Inl KeyError)"
  using collect_key_error[OF assms(3,4), of after "[]"] assms(1,2)
  by (simp add: jira_get_board_issues_def)

lemma board_raises:
  assumes a: "outcome (jira_get_sprints e board_id) = Some (Inr all_sprints)"
    and b: "id_to_list all_sprints = Inr ids"
    and s: "s \<in> set ids"
    and empty: "outcome (jira_get_sprint_issues e s) = Some (Inr \<lparr>columns = [], rows = []\<rparr>)"
    and ends: "\<forall>s' \<in> set ids. jira_get_sprint_issues e s' \<noteq> None"
  shows "\<exists>x. jira_get_board_issues e board_id = Some (Inl x)"
proof -
  from collect_ends[OF ends, of "[]"] obtain r where r: "collect_issue_rows e ids [] = Some r"
    by auto
  show ?thesis
  proof (cases r)
    case (Inl x)
    with r a b show ?thesis by (simp add: jira_get_board_issues_def)
  next
    case (Inr issue_rows)
    with r have "collect_issue_rows e ids [] = Some (Inr issue_rows)" by simp
    from collect_returns[OF this] s obtain fetched where
      "outcome (jira_get_sprint_issues e s) = Some (Inr fetched)"
      "set sprint_issue_columns \<subseteq> set (columns fetched)" by blast
    with empty show ?thesis by (simp add: sprint_issue_columns_def)
  qed
qed

text \<open>
  C10. \<open>jira_get_board_issues\<close> returns a table only when the issue table fetched for
  every sprint of the board has all nine selected columns. If some sprint yields the
  empty table (no rows, no columns) and the fetches of the board's sprints end, the
  function raises instead of returning; and when the sprints before that one have the
  nine columns, what it raises is the \<open>KeyError\<close> of the column selection.
\<close>

theorem board_issues_column_selection:
  "(jira_get_board_issues e board_id = Some (Inr t) \<longrightarrow>
     (\<exists>df_all_sprints sprint_ids.
        outcome (jira_get_sprints e board_id) = Some (Inr df_all_sprints) \<and>
        id_to_list df_all_sprints = Inr sprint_ids \<and>
        (\<forall>s \<in> set sprint_ids. \<exists>fetched.
           outcome (jira_get_sprint_issues e s) = Some (Inr fetched) \<and>
           set sprint_issue_columns \<subseteq> set (columns fetched)))) \<and>
   (outcome (jira_get_sprints e board_id) = Some (Inr all_sprints) \<and>
    id_to_list all_sprints = Inr ids \<and> s \<in> set ids \<and>
    outcome (jira_get_sprint_issues e s) = Some (Inr \<lparr>columns = [], rows = []\<rparr>) \<and>
    (\<forall>s' \<in> set ids. jira_get_sprint_issues e s' \<noteq> None) \<longrightarrow>
      (\<exists>x. jira_get_board_issues e board_id = Some (Inl x))) \<and>
   (outcome (jira_get_sprints e board_id) = Some (Inr all_sprints) \<and>
    id_to_list all_sprints = Inr (before @ s # after) \<and>
    (\<forall>s' \<in> set before. \<exists>fetched.
        outcome (jira_get_sprint_issues e s') = Some (Inr fetched) \<and>
        set sprint_issue_columns \<subseteq> set (columns fetched)) \<and>
    outcome (jira_get_sprint_issues e s) = Some (Inr \<lparr>columns = [], rows = []\<rparr>) \<longrightarrow>
      jira_get_board_issues e board_id = Some (Inl KeyError))"
  using board_returns[of e board_id t] board_raises[of e board_id all_sprints ids s]
    board_raises_key_error[of e board_id all_sprints before s after]
  by blast

lemma demo_str_values: "demo_str (JNum 7) = ''7''" "demo_str (JNum 32) = ''32''"
  by code_simp+

lemmas eval_fetch = outcome_def jira_get_sprints_def jira_get_sprint_issues_def paginate_def
  fetch_loop.simps jira_auth_get_connect_def demo_env_def board_server_def read_block_def
  subscript_def py_iter_def json_normalize_def Let_def demo_str_values cell_of_def
  first_occurrences_def demo_credentials

lemmas eval_board = jira_get_board_issues_def id_to_list_def find_column_def positions_def
  column_at_def cell_def getitem_def label_positions_def pick_def sprint_issue_columns_def
  assign_column_def assemble_board_issues_def merge_left_def board_issue_columns_def
  then_do_def drop_columns_def rename_columns_def new_name_def suffixed_def Let_def

lemma demo_sprints_fetched:
  "outcome (jira_get_sprints (demo_env (board_server issues)) (JNum 7))
     = Some (Inr demo_sprint_table)"
  by (simp add: eval_fetch demo_sprint_def demo_sprint_table_def)

lemma demo_no_issues_fetched:
  "outcome (jira_get_sprint_issues (demo_env (board_server [])) (JNum 32))
     = Some (Inr \<lparr>columns = [], rows = []\<rparr>)"
  by (simp add: eval_fetch)

lemma demo_issue_fetched:
  "outcome (jira_get_sprint_issues (demo_env (board_server [demo_issue])) (JNum 32))
     = Some (Inr demo_sprint_issue_table)"
  by (simp add: eval_fetch demo_issue_def demo_sprint_issue_table_def)

lemma demo_sprint_ids: "id_to_list demo_sprint_table = Inr [JNum 32]"
  by (simp add: id_to_list_def find_column_def positions_def column_at_def cell_def
      demo_sprint_table_def)

lemma demo_board_assembled:
  "jira_get_board_issues (demo_env (board_server [demo_issue])) (JNum 7)
     = Some (Inr demo_board_table)"
  by (simp add: demo_sprints_fetched demo_issue_fetched eval_board demo_sprint_table_def
      demo_sprint_issue_table_def demo_board_table_def)

theorem board_issues_column_selection_witness:
  "jira_get_board_issues (demo_env (board_server [demo_issue])) (JNum 7)
     = Some (Inr demo_board_table) \<and>
   (\<exists>df_all_sprints sprint_ids.
      outcome (jira_get_sprints (demo_env (board_server [demo_issue])) (JNum 7))
        = Some (Inr df_all_sprints) \<and>
      id_to_list df_all_sprints = Inr sprint_ids \<and>
      (\<forall>s \<in> set sprint_ids. \<exists>fetched.
         outcome (jira_get_sprint_issues (demo_env (board_server [demo_issue])) s)
           = Some (Inr fetched) \<and>
         set sprint_issue_columns \<subseteq> set (columns fetched))) \<and>
   outcome (jira_get_sprints (demo_env (board_server [])) (JNum 7))
     = Some (Inr demo_sprint_table) \<and>
   id_to_list demo_sprint_table = Inr ([] @ JNum 32 # []) \<and>
   JNum 32 \<in> set ([] @ JNum 32 # []) \<and>
   outcome (jira_get_sprint_issues (demo_env (board_server [])) (JNum 32))
     = Some (Inr \<lparr>columns = [], rows = []\<rparr>) \<and>
   jira_get_sprint_issues (demo_env (board_server [])) (JNum 32) \<noteq> None \<and>
   jira_get_board_issues (demo_env (board_server [])) (JNum 7) = Some (Inl KeyError)"
proof -
  let ?full = "demo_env (board_server [demo_issue])"
  let ?bare = "demo_env (board_server [])"
  note full = board_issues_column_selection[of ?full "JNum 7" demo_board_table]
  note bare = board_issues_column_selection[of ?bare "JNum 7" _ demo_sprint_table
      "[] @ JNum 32 # []" "JNum 32" "[]" "[]"]
  have a: "jira_get_board_issues ?full (JNum 7) = Some (Inr demo_board_table)"
    by (rule demo_board_assembled)
  have b: "outcome (jira_get_sprints ?bare (JNum 7)) = Some (Inr demo_sprint_table)"
    by (rule demo_sprints_fetched)
  have c: "id_to_list demo_sprint_table = Inr ([] @ JNum 32 # [])"
    by (simp add: demo_sprint_ids)
  have d: "outcome (jira_get_sprint_issues ?bare (JNum 32)) = Some (Inr \<lparr>columns = [], rows = []\<rparr>)"
    by (rule demo_no_issues_fetched)
  have e: "jira_get_sprint_issues ?bare (JNum 32) \<noteq> None"
    using d by (auto simp: outcome_def)
  have f: "JNum 32 \<in> set ([] @ JNum 32 # [])" by simp
  from bare b c d have g: "jira_get_board_issues ?bare (JNum 7) = Some (Inl KeyError)"
    by simp
  from full a have h: "\<exists>df_all_sprints sprint_ids.
      outcome (jira_get_sprints ?full (JNum 7)) = Some (Inr df_all_sprints) \<and>
      id_to_list df_all_sprints = Inr sprint_ids \<and>
      (\<forall>s \<in> set sprint_ids. \<exists>fetched.
         outcome (jira_get_sprint_issues ?full s) = Some (Inr fetched) \<and>
         set sprint_issue_columns \<subseteq> set (columns fetched))"
    by blast
  from a h b c f d e g show ?thesis by blast
qed

subsection \<open>Aggregation\<close>

text \<open>
  C5. The claim fails on the code. Of two issues of one group, one with 3 story points
  and one with none, the query of section 4.1 reports the sum 3 and the issue count 1:
  \<open>count\<close> is taken over the story-point column and leaves out its nulls, so an issue
  without story points is not counted. On the issues of the claim's example, which all
  have story points, the sums and counts are those the claim gives.
\<close>

theorem issue_count_skips_null_storypoints:
  "df_issues_per_type
     \<lparr>columns = [''issuetype'', ''status_cat_name'', ''prio'', ''storypoints''],
      rows = [[JStr ''Task'', JStr ''Done'', JStr ''High'', JNum 3],
              [JStr ''Task'', JStr ''Done'', JStr ''High'', JNull]]\<rparr>
    = Inr \<lparr>columns = [''issuetype'', ''status_cat_name'', ''prio'', ''storypoints'',
                     ''issue_count''],
           rows = [[JStr ''Task'', JStr ''Done'', JStr ''High'', JNum 3, JNum 1]]\<rparr> \<and>
   df_issues_per_type
     \<lparr>columns = [''issuetype'', ''status_cat_name'', ''prio'', ''storypoints''],
      rows = [[JStr ''Task'', JStr ''Done'', JStr ''High'', JNum 3],
              [JStr ''Task'', JStr ''Done'', JStr ''High'', JNum 2],
              [JStr ''Bug'', JStr ''Done'', JStr ''High'', JNum 1]]\<rparr>
    = Inr \<lparr>columns = [''issuetype'', ''status_cat_name'', ''prio'', ''storypoints'',
                     ''issue_count''],
           rows = [[JStr ''Bug'', JStr ''Done'', JStr ''High'', JNum 1, JNum 1],
                   [JStr ''Task'', JStr ''Done'', JStr ''High'', JNum 5, JNum 2]]\<rparr>"
  by code_simp

end
